theory Spec2Isabelle
  imports Main "HOL-Library.Word"
begin

unbundle bit_operations_syntax

section \<open>Data model of \<open>commands/login.go\<close>\<close>

text \<open>
  The file \<open>src/commands/login.go\<close> holds five functions: \<open>Login\<close>,
  \<open>createSSHCert\<close>, \<open>writeKeysToSSHDir\<close>, \<open>writeKeys\<close> and \<open>fileExists\<close>.
  Each is embedded below under its own name. Everything they call outside the file
  (the Go packages \<open>os\<close>, \<open>path/filepath\<close>, \<open>golang.org/x/crypto/ssh\<close>,
  \<open>encoding/pem\<close>, the OpenPubkey client and the package \<open>sshcert\<close>) is a field of
  an interface record that the embedded functions take as their first argument, so
  every theorem holds whatever those collaborators do.
\<close>

type_synonym path = string
type_synonym bytes = string

text \<open>
  Go \<open>error\<close> values. \<open>ErrNotExist\<close> is the sentinel \<open>os.ErrNotExist\<close>;
  \<open>ErrorString m\<close> is an error without a cause (\<open>errors.New\<close>, or \<open>fmt.Errorf\<close>
  without \<open>%w\<close>); \<open>WrapError m e\<close> is an error with the message prefix \<open>m\<close> that
  wraps \<open>e\<close> (\<open>fmt.Errorf("m: %w", e)\<close>, or the \<open>*PathError\<close> of package \<open>os\<close>).
  A Go \<open>error\<close> result that may be \<open>nil\<close> is an \<open>error option\<close>.
\<close>

datatype error =
    ErrNotExist
  | ErrorString string
  | WrapError string error

text \<open>\<open>err.Error()\<close>: the text \<open>fmt.Println(err)\<close> prints.\<close>

fun Error :: "error \<Rightarrow> string" where
  "Error ErrNotExist = ''file does not exist''"
| "Error (ErrorString m) = m"
| "Error (WrapError m e) = m @ '': '' @ Error e"

text \<open>
  \<open>errors.Is(err, target)\<close>: \<open>err\<close> or an error it wraps is \<open>target\<close>. A \<open>nil\<close>
  error is no target.
\<close>

fun unwraps_to :: "error \<Rightarrow> error \<Rightarrow> bool" where
  "unwraps_to (WrapError m e) target = (WrapError m e = target \<or> unwraps_to e target)"
| "unwraps_to e target = (e = target)"

fun errors_Is :: "error option \<Rightarrow> error \<Rightarrow> bool" where
  "errors_Is None target = False"
| "errors_Is (Some err) target = unwraps_to err target"

text \<open>
  \<open>fs.FileMode\<close> is a \<open>uint32\<close>. Go writes permissions in octal (\<open>0600\<close>,
  \<open>0777\<close>); \<open>octal\<close> reads a list of octal digits the same way.
\<close>

type_synonym FileMode = "32 word"

definition octal :: "nat list \<Rightarrow> FileMode" where
  "octal ds = foldl (\<lambda>a d. a * 8 + of_nat d) 0 ds"

text \<open>
  The state the installer runs in: the filesystem, of a type \<open>'w\<close> that the
  operating-system interface interprets, and the bytes written to standard output.
\<close>

record 'w state =
  fs :: 'w
  stdout :: string

text \<open>
  The operating-system and library calls of the installer.
  \<^item> \<open>os_UserHomeDir\<close>: \<open>os.UserHomeDir()\<close>.
  \<^item> \<open>filepath_Join\<close>: \<open>filepath.Join\<close> of two elements.
  \<^item> \<open>os_Open\<close>: the error of \<open>os.Open(path)\<close> (\<open>None\<close> for \<open>nil\<close>); the file handle
    is dropped by the only caller.
  \<^item> \<open>os_ReadFile\<close>: \<open>os.ReadFile(path)\<close>.
  \<^item> \<open>os_WriteFile\<close>: \<open>os.WriteFile(path, data, perm)\<close>, returning its error and the
    filesystem it leaves (a failed write may have changed it).
  \<^item> \<open>ssh_ParseAuthorizedKey\<close>: \<open>ssh.ParseAuthorizedKey\<close>, reduced to the two results
    the caller keeps, the comment and the error.
\<close>

record 'w sys =
  os_UserHomeDir :: "error + path"
  filepath_Join :: "path \<Rightarrow> path \<Rightarrow> path"
  os_Open :: "'w \<Rightarrow> path \<Rightarrow> error option"
  os_ReadFile :: "'w \<Rightarrow> path \<Rightarrow> error + bytes"
  os_WriteFile :: "'w \<Rightarrow> path \<Rightarrow> bytes \<Rightarrow> FileMode \<Rightarrow> error option \<times> 'w"
  ssh_ParseAuthorizedKey :: "bytes \<Rightarrow> error + string"

text \<open>
  \<open>fmt.Println(a, b, ...)\<close>: the operands separated by single spaces, then a newline,
  appended to standard output.
\<close>

fun Sprintln :: "string list \<Rightarrow> string" where
  "Sprintln [] = [CHR 0x0A]"
| "Sprintln [a] = a @ [CHR 0x0A]"
| "Sprintln (a # b # cs) = a @ '' '' @ Sprintln (b # cs)"

definition Println :: "string list \<Rightarrow> 'w state \<Rightarrow> 'w state" where
  "Println args s = s\<lparr>stdout := stdout s @ Sprintln args\<rparr>"

section \<open>The installer\<close>

text \<open>
  \<^verbatim>\<open>
  func fileExists(fPath string) bool {
      _, err := os.Open(fPath)
      return !errors.Is(err, os.ErrNotExist)
  }
  \<close>
\<close>

definition fileExists :: "'w sys \<Rightarrow> 'w \<Rightarrow> path \<Rightarrow> bool" where
  "fileExists env w fPath = (let err = os_Open env w fPath in \<not> errors_Is err ErrNotExist)"

text \<open>
  \<^verbatim>\<open>
  func writeKeys(seckeyPath string, pubkeyPath string, seckeySshPem []byte, certBytes []byte) error {
      if err := os.WriteFile(seckeyPath, seckeySshPem, 0600); err != nil {
          return err
      }
      fmt.Println("writing secret key to", seckeyPath)
      fmt.Println("writing public key to", pubkeyPath)
      certBytes = append(certBytes, []byte(" openpubkey")...)
      return os.WriteFile(pubkeyPath, certBytes, 0777)
  }
  \<close>
\<close>

definition writeKeys ::
  "'w sys \<Rightarrow> path \<Rightarrow> path \<Rightarrow> bytes \<Rightarrow> bytes \<Rightarrow> 'w state \<Rightarrow> error option \<times> 'w state" where
  "writeKeys env seckeyPath pubkeyPath seckeySshPem certBytes s =
     (case os_WriteFile env (fs s) seckeyPath seckeySshPem (octal [0, 6, 0, 0]) of
        (Some err, w1) \<Rightarrow> (Some err, s\<lparr>fs := w1\<rparr>)
      | (None, w1) \<Rightarrow>
          (let s1 = Println [''writing secret key to'', seckeyPath] (s\<lparr>fs := w1\<rparr>);
               s2 = Println [''writing public key to'', pubkeyPath] s1;
               certBytes' = certBytes @ '' openpubkey''
           in case os_WriteFile env (fs s2) pubkeyPath certBytes' (octal [0, 7, 7, 7]) of
                (err, w2) \<Rightarrow> (err, s2\<lparr>fs := w2\<rparr>)))"

text \<open>
  The body of the \<open>for\<close> loop of \<open>writeKeysToSSHDir\<close> over the candidate basenames
  still to be tried; the empty list is the statement after the loop.
  \<^verbatim>\<open>
  for _, keyFilename := range []string{"id_ecdsa", "id_dsa"} {
      seckeyPath := filepath.Join(sshPath, keyFilename)
      pubkeyPath := seckeyPath + ".pub"
      if !fileExists(seckeyPath) {
          return writeKeys(seckeyPath, pubkeyPath, seckeySshPem, certBytes)
      } else if !fileExists(pubkeyPath) {
          continue
      } else {
          sshPubkey, err := os.ReadFile(pubkeyPath)
          if err != nil {
              fmt.Println("Failed to read:", pubkeyPath)
              continue
          }
          _, comment, _, _, err := ssh.ParseAuthorizedKey(sshPubkey)
          if err != nil {
              fmt.Println("Failed to parse:", pubkeyPath)
              continue
          }
          if comment == "openpubkey" {
              return writeKeys(seckeyPath, pubkeyPath, seckeySshPem, certBytes)
          }
      }
  }
  return fmt.Errorf("no default ssh key file free for openpubkey")
  \<close>
\<close>

fun writeKeysToSSHDir_loop ::
  "'w sys \<Rightarrow> path \<Rightarrow> bytes \<Rightarrow> bytes \<Rightarrow> string list \<Rightarrow> 'w state \<Rightarrow> error option \<times> 'w state" where
  "writeKeysToSSHDir_loop env sshPath seckeySshPem certBytes [] s =
     (Some (ErrorString ''no default ssh key file free for openpubkey''), s)"
| "writeKeysToSSHDir_loop env sshPath seckeySshPem certBytes (keyFilename # rest) s =
     (let seckeyPath = filepath_Join env sshPath keyFilename;
          pubkeyPath = seckeyPath @ ''.pub''
      in if \<not> fileExists env (fs s) seckeyPath then
           writeKeys env seckeyPath pubkeyPath seckeySshPem certBytes s
         else if \<not> fileExists env (fs s) pubkeyPath then
           writeKeysToSSHDir_loop env sshPath seckeySshPem certBytes rest s
         else
           (case os_ReadFile env (fs s) pubkeyPath of
              Inl err \<Rightarrow>
                writeKeysToSSHDir_loop env sshPath seckeySshPem certBytes rest
                  (Println [''Failed to read:'', pubkeyPath] s)
            | Inr sshPubkey \<Rightarrow>
                (case ssh_ParseAuthorizedKey env sshPubkey of
                   Inl err \<Rightarrow>
                     writeKeysToSSHDir_loop env sshPath seckeySshPem certBytes rest
                       (Println [''Failed to parse:'', pubkeyPath] s)
                 | Inr comment \<Rightarrow>
                     if comment = ''openpubkey'' then
                       writeKeys env seckeyPath pubkeyPath seckeySshPem certBytes s
                     else
                       writeKeysToSSHDir_loop env sshPath seckeySshPem certBytes rest s)))"

text \<open>
  \<^verbatim>\<open>
  func writeKeysToSSHDir(seckeySshPem []byte, certBytes []byte) error {
      homePath, err := os.UserHomeDir()
      if err != nil {
          return err
      }
      sshPath := filepath.Join(homePath, ".ssh")
      for ... (the loop above)
  }
  \<close>
\<close>

definition writeKeysToSSHDir ::
  "'w sys \<Rightarrow> bytes \<Rightarrow> bytes \<Rightarrow> 'w state \<Rightarrow> error option \<times> 'w state" where
  "writeKeysToSSHDir env seckeySshPem certBytes s =
     (case os_UserHomeDir env of
        Inl err \<Rightarrow> (Some err, s)
      | Inr homePath \<Rightarrow>
          (let sshPath = filepath_Join env homePath ''.ssh''
           in writeKeysToSSHDir_loop env sshPath seckeySshPem certBytes
                [''id_ecdsa'', ''id_dsa''] s))"

section \<open>Certificate creation and \<open>Login\<close>\<close>

text \<open>
  The collaborators of \<open>createSSHCert\<close> and \<open>Login\<close>. Their values are opaque
  to \<open>login.go\<close>, so each Go type is a type variable: \<open>'op\<close> the OpenID provider,
  \<open>'k\<close> the \<open>crypto.Signer\<close>, \<open>'pkt\<close> the PK token, \<open>'c\<close> the unsigned \<open>sshcert\<close>
  certificate, \<open>'ss\<close> an \<open>ssh.Signer\<close>, \<open>'sc\<close> the signed \<open>*ssh.Certificate\<close> and
  \<open>'pem\<close> the \<open>*pem.Block\<close>.
  \<^item> \<open>util_GenKeyPair\<close>: \<open>util.GenKeyPair(alg)\<close>.
  \<^item> \<open>client_OidcAuth\<close>: the method \<open>client.OidcAuth(cxt, signer, alg, extraClaims, gqFlag)\<close>;
    the claim map is an association list.
  \<^item> \<open>sshcert_New\<close>: \<open>sshcert.New(pkt, principals)\<close>, of the package \<open>freessh/sshcert\<close>.
  \<^item> \<open>ssh_NewSignerFromSigner\<close>: \<open>ssh.NewSignerFromSigner(signer)\<close>.
  \<^item> \<open>ssh_AlgorithmSigner\<close>: whether the type assertion
    \<open>sshSigner.(ssh.AlgorithmSigner)\<close> holds; it panics otherwise.
  \<^item> \<open>ssh_NewSignerWithAlgorithms\<close>: \<open>ssh.NewSignerWithAlgorithms(signer, algorithms)\<close>.
  \<^item> \<open>cert_SignCert\<close>: the method \<open>cert.SignCert(signer)\<close>.
  \<^item> \<open>ssh_MarshalAuthorizedKey\<close>, \<open>ssh_MarshalPrivateKey\<close>, \<open>pem_EncodeToMemory\<close>:
    the three encoders.
\<close>

record 'op OpkClient =
  Op :: 'op

record ('op, 'k, 'pkt, 'c, 'ss, 'sc, 'pem) collab =
  util_GenKeyPair :: "string \<Rightarrow> error + 'k"
  client_OidcAuth ::
    "'op OpkClient \<Rightarrow> unit \<Rightarrow> 'k \<Rightarrow> string \<Rightarrow> (string \<times> string) list \<Rightarrow> bool \<Rightarrow> error + 'pkt"
  sshcert_New :: "'pkt \<Rightarrow> string list \<Rightarrow> error + 'c"
  ssh_NewSignerFromSigner :: "'k \<Rightarrow> error + 'ss"
  ssh_AlgorithmSigner :: "'ss \<Rightarrow> bool"
  ssh_NewSignerWithAlgorithms :: "'ss \<Rightarrow> string list \<Rightarrow> error + 'ss"
  cert_SignCert :: "'c \<Rightarrow> 'ss \<Rightarrow> error + 'sc"
  ssh_MarshalAuthorizedKey :: "'sc \<Rightarrow> bytes"
  ssh_MarshalPrivateKey :: "'k \<Rightarrow> string \<Rightarrow> error + 'pem"
  pem_EncodeToMemory :: "'pem \<Rightarrow> bytes"

text \<open>The constants \<open>jwa.ES256\<close> and \<open>ssh.KeyAlgoECDSA256\<close>.\<close>

definition jwa_ES256 :: string where
  "jwa_ES256 = ''ES256''"

definition ssh_KeyAlgoECDSA256 :: string where
  "ssh_KeyAlgoECDSA256 = ''ecdsa-sha2-nistp256''"

text \<open>
  What a call returns: a value, an error, or a run-time panic (a failed type assertion,
  a slice bound out of range).
\<close>

datatype 'a outcome = Ok 'a | Err error | Panic string

text \<open>
  \<^verbatim>\<open>
  func createSSHCert(cxt context.Context, client *client.OpkClient, signer crypto.Signer,
          alg jwa.KeyAlgorithm, gqFlag bool, principals []string) ([]byte, []byte, error) {
      pkt, err := client.OidcAuth(cxt, signer, alg, map[string]any{}, gqFlag)
      if err != nil { return nil, nil, err }
      cert, err := sshcert.New(pkt, principals)
      if err != nil { return nil, nil, err }
      sshSigner, err := ssh.NewSignerFromSigner(signer)
      if err != nil { return nil, nil, err }
      signerMas, err := ssh.NewSignerWithAlgorithms(sshSigner.(ssh.AlgorithmSigner),
          []string{ssh.KeyAlgoECDSA256})
      if err != nil { return nil, nil, err }
      sshCert, err := cert.SignCert(signerMas)
      if err != nil { return nil, nil, err }
      certBytes := ssh.MarshalAuthorizedKey(sshCert)
      // Remove newline character that MarshalAuthorizedKey() adds
      certBytes = certBytes[:len(certBytes)-1]
      seckeySsh, err := ssh.MarshalPrivateKey(signer, "openpubkey cert")
      if err != nil { return nil, nil, err }
      seckeySshBytes := pem.EncodeToMemory(seckeySsh)
      return certBytes, seckeySshBytes, nil
  }
  \<close>
  The slice expression \<open>certBytes[:len(certBytes)-1]\<close> panics on an empty slice and
  drops the last byte otherwise, whatever that byte is.
\<close>

definition createSSHCert ::
  "('op, 'k, 'pkt, 'c, 'ss, 'sc, 'pem) collab \<Rightarrow> unit \<Rightarrow> 'op OpkClient \<Rightarrow> 'k \<Rightarrow> string \<Rightarrow> bool
     \<Rightarrow> string list \<Rightarrow> (bytes \<times> bytes) outcome" where
  "createSSHCert lib cxt client signer alg gqFlag principals =
     (case client_OidcAuth lib client cxt signer alg [] gqFlag of
        Inl err \<Rightarrow> Err err
      | Inr pkt \<Rightarrow>
     (case sshcert_New lib pkt principals of
        Inl err \<Rightarrow> Err err
      | Inr cert \<Rightarrow>
     (case ssh_NewSignerFromSigner lib signer of
        Inl err \<Rightarrow> Err err
      | Inr sshSigner \<Rightarrow>
     if \<not> ssh_AlgorithmSigner lib sshSigner then
       Panic ''interface conversion: ssh.Signer is not ssh.AlgorithmSigner''
     else
     (case ssh_NewSignerWithAlgorithms lib sshSigner [ssh_KeyAlgoECDSA256] of
        Inl err \<Rightarrow> Err err
      | Inr signerMas \<Rightarrow>
     (case cert_SignCert lib cert signerMas of
        Inl err \<Rightarrow> Err err
      | Inr sshCert \<Rightarrow>
     (let certBytes = ssh_MarshalAuthorizedKey lib sshCert
      in if certBytes = [] then Panic ''slice bounds out of range [:-1]''
         else
           (let certBytes = take (length certBytes - 1) certBytes
            in case ssh_MarshalPrivateKey lib signer ''openpubkey cert'' of
                 Inl err \<Rightarrow> Err err
               | Inr seckeySsh \<Rightarrow>
                   (let seckeySshBytes = pem_EncodeToMemory lib seckeySsh
                    in Ok (certBytes, seckeySshBytes)))))))))"

text \<open>
  \<^verbatim>\<open>
  func Login(op client.OpenIdProvider) error {
      principals := []string{}
      gqFalse := false
      alg := jwa.ES256
      signer, err := util.GenKeyPair(alg)
      if err != nil {
          return fmt.Errorf("failed to generate keypair: %w", err)
      }
      client := &client.OpkClient{ Op: op }
      certBytes, seckeySshPem, err := createSSHCert(context.Background(), client, signer,
          alg, gqFalse, principals)
      if err != nil {
          return fmt.Errorf("failed to generate SSH cert: %w", err)
      }
      err = writeKeysToSSHDir(seckeySshPem, certBytes)
      if err != nil {
          fmt.Println(err)
          return fmt.Errorf("failed to write SSH keys to filesystem: %w", err)
      }
      return nil
  }
  \<close>
\<close>

definition Login ::
  "('op, 'k, 'pkt, 'c, 'ss, 'sc, 'pem) collab \<Rightarrow> 'w sys \<Rightarrow> 'op \<Rightarrow> 'w state
     \<Rightarrow> unit outcome \<times> 'w state" where
  "Login lib env op s =
     (let principals = [];
          gqFalse = False;
          alg = jwa_ES256
      in case util_GenKeyPair lib alg of
           Inl err \<Rightarrow> (Err (WrapError ''failed to generate keypair'' err), s)
         | Inr signer \<Rightarrow>
             (let client = \<lparr>Op = op\<rparr>
              in case createSSHCert lib () client signer alg gqFalse principals of
                   Panic m \<Rightarrow> (Panic m, s)
                 | Err err \<Rightarrow> (Err (WrapError ''failed to generate SSH cert'' err), s)
                 | Ok (certBytes, seckeySshPem) \<Rightarrow>
                     (case writeKeysToSSHDir env seckeySshPem certBytes s of
                        (Some err, s') \<Rightarrow>
                          (Err (WrapError ''failed to write SSH keys to filesystem'' err),
                           Println [Error err] s')
                      | (None, s') \<Rightarrow> (Ok (), s'))))"

section \<open>Slot conditions\<close>

text \<open>
  The two paths of a candidate slot, as the loop computes them.
\<close>

definition slot_seckeyPath :: "'w sys \<Rightarrow> path \<Rightarrow> string \<Rightarrow> path" where
  "slot_seckeyPath env sshPath keyFilename = filepath_Join env sshPath keyFilename"

definition slot_pubkeyPath :: "'w sys \<Rightarrow> path \<Rightarrow> string \<Rightarrow> path" where
  "slot_pubkeyPath env sshPath keyFilename = filepath_Join env sshPath keyFilename @ ''.pub''"

text \<open>
  A slot whose private-key file exists and whose public-key file is missing, cannot be
  read or does not parse.
\<close>

definition slot_inconclusive :: "'w sys \<Rightarrow> 'w \<Rightarrow> path \<Rightarrow> string \<Rightarrow> bool" where
  "slot_inconclusive env w sshPath keyFilename =
     (fileExists env w (slot_seckeyPath env sshPath keyFilename) \<and>
      (if fileExists env w (slot_pubkeyPath env sshPath keyFilename) then
         (case os_ReadFile env w (slot_pubkeyPath env sshPath keyFilename) of
            Inl err \<Rightarrow> True
          | Inr sshPubkey \<Rightarrow>
              (case ssh_ParseAuthorizedKey env sshPubkey of
                 Inl err \<Rightarrow> True
               | Inr comment \<Rightarrow> False))
       else True))"

text \<open>
  A slot whose two files exist and whose public-key file parses with a comment other
  than the marker.
\<close>

definition slot_foreign :: "'w sys \<Rightarrow> 'w \<Rightarrow> path \<Rightarrow> string \<Rightarrow> bool" where
  "slot_foreign env w sshPath keyFilename =
     (fileExists env w (slot_seckeyPath env sshPath keyFilename) \<and>
      fileExists env w (slot_pubkeyPath env sshPath keyFilename) \<and>
      (case os_ReadFile env w (slot_pubkeyPath env sshPath keyFilename) of
         Inl err \<Rightarrow> False
       | Inr sshPubkey \<Rightarrow>
           (case ssh_ParseAuthorizedKey env sshPubkey of
              Inl err \<Rightarrow> False
            | Inr comment \<Rightarrow> comment \<noteq> ''openpubkey'')))"

text \<open>A slot the scan passes over: inconclusive or foreign.\<close>

definition slot_skipped :: "'w sys \<Rightarrow> 'w \<Rightarrow> path \<Rightarrow> string \<Rightarrow> bool" where
  "slot_skipped env w sshPath keyFilename =
     (slot_inconclusive env w sshPath keyFilename \<or> slot_foreign env w sshPath keyFilename)"

text \<open>
  A slot whose two files exist and whose public-key file parses with the marker as its
  comment.
\<close>

definition slot_owned :: "'w sys \<Rightarrow> 'w \<Rightarrow> path \<Rightarrow> string \<Rightarrow> bool" where
  "slot_owned env w sshPath keyFilename =
     (fileExists env w (slot_seckeyPath env sshPath keyFilename) \<and>
      fileExists env w (slot_pubkeyPath env sshPath keyFilename) \<and>
      (case os_ReadFile env w (slot_pubkeyPath env sshPath keyFilename) of
         Inl err \<Rightarrow> False
       | Inr sshPubkey \<Rightarrow>
           (case ssh_ParseAuthorizedKey env sshPubkey of
              Inl err \<Rightarrow> False
            | Inr comment \<Rightarrow> comment = ''openpubkey'')))"

text \<open>
  What the loop prints when it passes over a slot whose private-key file exists: a
  line for a public-key file that cannot be read or parsed, nothing otherwise.
\<close>

definition skip_report :: "'w sys \<Rightarrow> 'w \<Rightarrow> path \<Rightarrow> string \<Rightarrow> string" where
  "skip_report env w sshPath keyFilename =
     (if fileExists env w (slot_pubkeyPath env sshPath keyFilename) then
        (case os_ReadFile env w (slot_pubkeyPath env sshPath keyFilename) of
           Inl err \<Rightarrow> Sprintln [''Failed to read:'', slot_pubkeyPath env sshPath keyFilename]
         | Inr sshPubkey \<Rightarrow>
             (case ssh_ParseAuthorizedKey env sshPubkey of
                Inl err \<Rightarrow> Sprintln [''Failed to parse:'', slot_pubkeyPath env sshPath keyFilename]
              | Inr comment \<Rightarrow> []))
      else [])"

section \<open>An in-memory operating system\<close>

text \<open>
  A small instance of the interface, on which the theorems are run: the filesystem is
  an association list from paths to nodes. A \<open>Regular\<close> node has a content and a
  mode; every access to a \<open>Denied\<close> node fails with a permission error. Writing
  follows \<open>os.WriteFile\<close>: a missing file is created with the given mode, an existing
  one is truncated and keeps its mode; the umask of the process is 0.
\<close>

datatype node = Regular bytes FileMode | Denied

type_synonym memfs = "(path \<times> node) list"

fun mem_put :: "path \<Rightarrow> node \<Rightarrow> memfs \<Rightarrow> memfs" where
  "mem_put p n [] = [(p, n)]"
| "mem_put p n ((q, m) # w) = (if p = q then (p, n) # w else (q, m) # mem_put p n w)"

definition mem_Open :: "memfs \<Rightarrow> path \<Rightarrow> error option" where
  "mem_Open w p =
     (case map_of w p of
        None \<Rightarrow> Some (WrapError (''open '' @ p) ErrNotExist)
      | Some Denied \<Rightarrow> Some (WrapError (''open '' @ p) (ErrorString ''permission denied''))
      | Some (Regular d m) \<Rightarrow> None)"

definition mem_ReadFile :: "memfs \<Rightarrow> path \<Rightarrow> error + bytes" where
  "mem_ReadFile w p =
     (case map_of w p of
        None \<Rightarrow> Inl (WrapError (''open '' @ p) ErrNotExist)
      | Some Denied \<Rightarrow> Inl (WrapError (''open '' @ p) (ErrorString ''permission denied''))
      | Some (Regular d m) \<Rightarrow> Inr d)"

definition mem_WriteFile :: "memfs \<Rightarrow> path \<Rightarrow> bytes \<Rightarrow> FileMode \<Rightarrow> error option \<times> memfs" where
  "mem_WriteFile w p d perm =
     (case map_of w p of
        None \<Rightarrow> (None, mem_put p (Regular d perm) w)
      | Some Denied \<Rightarrow> (Some (WrapError (''open '' @ p) (ErrorString ''permission denied'')), w)
      | Some (Regular d0 m0) \<Rightarrow> (None, mem_put p (Regular d m0) w))"

text \<open>
  The parser follows \<open>ssh.ParseAuthorizedKey\<close> of \<open>golang.org/x/crypto/ssh\<close> line by
  line. A line ends at a newline and is cut at the first carriage return; after
  \<open>bytes.TrimSpace\<close> an empty line, a line that starts with \<open>#\<close> and a line with
  no space or tab are passed over. What follows the first field is tried as base64
  key data and comment; if that fails the line is tried again with its first,
  possibly quoted, field taken as options. When no line holds a key the error is
  "ssh: no key found". Two restrictions: the only key format recognised is
  \<open>ssh-ed25519\<close> (the wire encoding is the length 11, the name, the length 32 and 32
  key bytes), and white space is the ASCII one.
\<close>

definition is_blank :: "char \<Rightarrow> bool" where
  "is_blank c = (c = CHR '' '' \<or> c = CHR 0x09)"

definition is_space :: "char \<Rightarrow> bool" where
  "is_space c =
     (c = CHR '' '' \<or> c = CHR 0x09 \<or> c = CHR 0x0A \<or> c = CHR 0x0B \<or> c = CHR 0x0C \<or> c = CHR 0x0D)"

definition TrimSpace :: "string \<Rightarrow> string" where
  "TrimSpace b = rev (dropWhile is_space (rev (dropWhile is_space b)))"

definition b64_value :: "char \<Rightarrow> nat option" where
  "b64_value c =
     (let n = (of_char c :: nat)
      in if 65 \<le> n \<and> n \<le> 90 then Some (n - 65)
         else if 97 \<le> n \<and> n \<le> 122 then Some (n - 71)
         else if 48 \<le> n \<and> n \<le> 57 then Some (n + 4)
         else if n = 43 then Some 62
         else if n = 47 then Some 63
         else None)"

fun b64_decode :: "string \<Rightarrow> nat list option" where
  "b64_decode [] = Some []"
| "b64_decode (a # b # c # d # r) =
     (case (b64_value a, b64_value b, b64_value c, b64_value d, b64_decode r) of
        (Some x, Some y, Some z, Some u, Some bs) \<Rightarrow>
          (let n = ((x * 64 + y) * 64 + z) * 64 + u
           in Some (n div 65536 # (n div 256) mod 256 # n mod 256 # bs))
      | _ \<Rightarrow> None)"
| "b64_decode r = None"

definition is_ed25519_key :: "nat list \<Rightarrow> bool" where
  "is_ed25519_key blob =
     (take 19 blob = [0, 0, 0, 11, 115, 115, 104, 45, 101, 100, 50, 53, 53, 49, 57, 0, 0, 0, 32] \<and>
      length blob = 51)"

definition mem_parseKey :: "string \<Rightarrow> string option" where
  "mem_parseKey b =
     (let b = TrimSpace b;
          base64Key = takeWhile (\<lambda>c. \<not> is_blank c) b
      in case b64_decode base64Key of
           None \<Rightarrow> None
         | Some key \<Rightarrow>
             if is_ed25519_key key then Some (TrimSpace (dropWhile (\<lambda>c. \<not> is_blank c) b))
             else None)"

fun skip_options :: "bool \<Rightarrow> char option \<Rightarrow> string \<Rightarrow> string option" where
  "skip_options inQuote prev [] = None"
| "skip_options inQuote prev (b # bs) =
     (if \<not> inQuote \<and> is_blank b then Some (b # bs)
      else skip_options
             (if b = CHR 0x22 \<and> prev \<noteq> Some (CHR 0x5C) then \<not> inQuote else inQuote)
             (Some b) bs)"

fun split_lines :: "string \<Rightarrow> string \<Rightarrow> string list" where
  "split_lines acc [] = (if acc = [] then [] else [rev acc])"
| "split_lines acc (c # cs) =
     (if c = CHR 0x0A then rev acc # split_lines [] cs else split_lines (c # acc) cs)"

fun mem_parseLines :: "string list \<Rightarrow> error + string" where
  "mem_parseLines [] = Inl (ErrorString ''ssh: no key found'')"
| "mem_parseLines (l # ls) =
     (let line = TrimSpace (takeWhile (\<lambda>c. c \<noteq> CHR 0x0D) l)
      in if line = [] then mem_parseLines ls
         else if hd line = CHR ''#'' then mem_parseLines ls
         else if dropWhile (\<lambda>c. \<not> is_blank c) line = [] then mem_parseLines ls
         else
           (case mem_parseKey (dropWhile (\<lambda>c. \<not> is_blank c) line) of
              Some comment \<Rightarrow> Inr comment
            | None \<Rightarrow>
                (case skip_options False None line of
                   None \<Rightarrow> mem_parseLines ls
                 | Some r \<Rightarrow>
                     (let r = dropWhile is_blank r
                      in if dropWhile (\<lambda>c. \<not> is_blank c) r = [] then mem_parseLines ls
                         else
                           (case mem_parseKey (dropWhile (\<lambda>c. \<not> is_blank c) r) of
                              Some comment \<Rightarrow> Inr comment
                            | None \<Rightarrow> mem_parseLines ls)))))"

definition mem_ParseAuthorizedKey :: "bytes \<Rightarrow> error + string" where
  "mem_ParseAuthorizedKey b = mem_parseLines (split_lines [] b)"

text \<open>
  A public-key line that the parser, like the library, accepts: an \<open>ssh-ed25519\<close> key
  with the given comment.
\<close>

definition key_line :: "string \<Rightarrow> string" where
  "key_line comment =
     ''ssh-ed25519 AAAAC3NzaC1lZDI1NTE5AAAAIFhmZmZmZmZmZmZmZmZmZmZmZmZmZmZmZmZmZmZmZmZm '' @ comment"

definition mem_sys :: "path \<Rightarrow> memfs sys" where
  "mem_sys homePath =
     \<lparr>os_UserHomeDir = Inr homePath,
      filepath_Join = (\<lambda>a b. a @ ''/'' @ b),
      os_Open = mem_Open,
      os_ReadFile = mem_ReadFile,
      os_WriteFile = mem_WriteFile,
      ssh_ParseAuthorizedKey = mem_ParseAuthorizedKey\<rparr>"

text \<open>
  An instance of the collaborators: the key is a number, the token pairs the provider
  with the key, the certificate pairs the token with the principals, and the encoder
  emits a key type, a space, the key data and a newline.
\<close>

type_synonym mem_cert = "(string \<times> nat) \<times> string list"

definition mem_lib ::
  "(string, nat, string \<times> nat, mem_cert, nat \<times> string list, mem_cert \<times> nat, string) collab" where
  "mem_lib =
     \<lparr>util_GenKeyPair = (\<lambda>alg. if alg = ''ES256'' then Inr 7 else Inl (ErrorString ''unsupported'')),
      client_OidcAuth = (\<lambda>client cxt signer alg extra gq. Inr (Op client, signer)),
      sshcert_New = (\<lambda>pkt principals. Inr (pkt, principals)),
      ssh_NewSignerFromSigner = (\<lambda>k. Inr (k, [])),
      ssh_AlgorithmSigner = (\<lambda>ss. True),
      ssh_NewSignerWithAlgorithms = (\<lambda>ss algs. Inr (fst ss, algs)),
      cert_SignCert = (\<lambda>c sm. Inr (c, fst sm)),
      ssh_MarshalAuthorizedKey = (\<lambda>sc. ''ty AAAA'' @ [CHR 0x0A]),
      ssh_MarshalPrivateKey = (\<lambda>k comment. Inr comment),
      pem_EncodeToMemory = (\<lambda>blk. ''PEM '' @ blk)\<rparr>"

text \<open>
  Filesystems of a user whose home directory is \<open>/h\<close>. In \<open>fs_exhausted\<close> the first
  slot holds a foreign key and the second an orphaned private key. In
  \<open>fs_dsa_owned\<close> the first slot is free and the second holds a key of the tool; in
  \<open>fs_ecdsa_owned\<close> it is the other way round, and so in \<open>fs_ecdsa_loose\<close>, where
  the private-key file has mode \<open>0644\<close> and the public-key file mode \<open>0600\<close>. In \<open>fs_foreign_owned\<close> the first slot
  holds a foreign key and the second a key of the tool. In \<open>fs_foreign\<close> the first
  slot holds a foreign key and the second is free. In \<open>fs_garbled\<close> the public-key file
  of the first slot does not parse, and in \<open>fs_denied\<close> its private-key file cannot
  be opened. Modes are numerals: 384 is \<open>0600\<close>, 420 is \<open>0644\<close> and 511 is \<open>0777\<close>.
\<close>

definition fs_exhausted :: memfs where
  "fs_exhausted =
     [(''/h/.ssh/id_ecdsa'', Regular ''old'' 384),
      (''/h/.ssh/id_ecdsa.pub'', Regular (key_line ''me@host'') 420),
      (''/h/.ssh/id_dsa'', Regular ''old2'' 384)]"

definition fs_dsa_owned :: memfs where
  "fs_dsa_owned =
     [(''/h/.ssh/id_dsa'', Regular ''old'' 384),
      (''/h/.ssh/id_dsa.pub'', Regular (key_line ''openpubkey'') 420)]"

definition fs_ecdsa_owned :: memfs where
  "fs_ecdsa_owned =
     [(''/h/.ssh/id_ecdsa'', Regular ''old'' 384),
      (''/h/.ssh/id_ecdsa.pub'', Regular (key_line ''openpubkey'') 420)]"


definition fs_foreign_owned :: memfs where
  "fs_foreign_owned =
     [(''/h/.ssh/id_ecdsa'', Regular ''old'' 384),
      (''/h/.ssh/id_ecdsa.pub'', Regular (key_line ''Openpubkey'') 420),
      (''/h/.ssh/id_dsa'', Regular ''old2'' 384),
      (''/h/.ssh/id_dsa.pub'', Regular (key_line ''openpubkey'') 420)]"

definition fs_foreign :: memfs where
  "fs_foreign =
     [(''/h/.ssh/id_ecdsa'', Regular ''old'' 384),
      (''/h/.ssh/id_ecdsa.pub'', Regular (key_line ''openpubkey2'') 420)]"

definition fs_garbled :: memfs where
  "fs_garbled =
     [(''/h/.ssh/id_ecdsa'', Regular ''old'' 384),
      (''/h/.ssh/id_ecdsa.pub'', Regular ''garbage'' 420)]"

definition fs_denied :: memfs where
  "fs_denied = [(''/h/.ssh/id_ecdsa'', Denied)]"

text \<open>
  Variants of three collaborators: a signer constructor that refuses every algorithm
  list but \<open>[ssh.KeyAlgoECDSA256]\<close>, a key generator that refuses every algorithm but
  \<open>ES256\<close>, and a certificate binder that refuses every principal list but the empty
  one.
\<close>

definition picky_NewSignerWithAlgorithms :: "nat \<times> string list \<Rightarrow> string list \<Rightarrow> error + nat \<times> string list" where
  "picky_NewSignerWithAlgorithms ss algs =
     (if algs = [''ecdsa-sha2-nistp256''] then Inr (fst ss, algs)
      else Inl (ErrorString ''algorithm refused''))"

definition picky_GenKeyPair :: "string \<Rightarrow> error + nat" where
  "picky_GenKeyPair alg = (if alg = ''ES256'' then Inr 7 else Inl (ErrorString ''algorithm refused''))"

definition picky_New :: "string \<times> nat \<Rightarrow> string list \<Rightarrow> error + mem_cert" where
  "picky_New pkt principals =
     (if principals = [] then Inr (pkt, []) else Inl (ErrorString ''principals refused''))"

section \<open>The loop, one slot at a time\<close>

lemma Println_fs: "fs (Println args s) = fs s"
  by (simp add: Println_def)

text \<open>
  One iteration: a slot is written when its private-key file does not exist or when
  it is owned; otherwise the loop goes on, having printed its report.
\<close>

lemma loop_Cons:
  "writeKeysToSSHDir_loop env sshPath sec cert (k # rest) s =
     (if \<not> fileExists env (fs s) (slot_seckeyPath env sshPath k) \<or> slot_owned env (fs s) sshPath k
      then writeKeys env (slot_seckeyPath env sshPath k) (slot_pubkeyPath env sshPath k) sec cert s
      else writeKeysToSSHDir_loop env sshPath sec cert rest
             (s\<lparr>stdout := stdout s @ skip_report env (fs s) sshPath k\<rparr>))"
  by (simp add: slot_owned_def skip_report_def slot_seckeyPath_def slot_pubkeyPath_def
      Println_def Let_def split: sum.splits)

declare writeKeysToSSHDir_loop.simps(2) [simp del]

lemma skipped_not_owned:
  assumes "slot_skipped env w sshPath k"
  shows "fileExists env w (slot_seckeyPath env sshPath k)" and "\<not> slot_owned env w sshPath k"
  using assms
  by (auto simp: slot_skipped_def slot_inconclusive_def slot_foreign_def slot_owned_def
      split: sum.splits if_splits)

lemma loop_skip:
  assumes "slot_skipped env (fs s) sshPath k"
  shows "writeKeysToSSHDir_loop env sshPath sec cert (k # rest) s =
         writeKeysToSSHDir_loop env sshPath sec cert rest
           (s\<lparr>stdout := stdout s @ skip_report env (fs s) sshPath k\<rparr>)"
  using skipped_not_owned[OF assms] by (simp add: loop_Cons)

lemma loop_skip_prefix:
  assumes "\<forall>k \<in> set pre. slot_skipped env (fs s) sshPath k"
  shows "writeKeysToSSHDir_loop env sshPath sec cert (pre @ rest) s =
         writeKeysToSSHDir_loop env sshPath sec cert rest
           (s\<lparr>stdout := stdout s @ concat (map (skip_report env (fs s) sshPath) pre)\<rparr>)"
  using assms
proof (induction pre arbitrary: s)
  case Nil
  show ?case by simp
next
  case (Cons k pre)
  let ?s1 = "s\<lparr>stdout := stdout s @ skip_report env (fs s) sshPath k\<rparr>"
  from Cons.prems have k: "slot_skipped env (fs s) sshPath k" by simp
  from Cons.prems have "\<forall>j \<in> set pre. slot_skipped env (fs ?s1) sshPath j" by simp
  from Cons.IH[OF this] have
    "writeKeysToSSHDir_loop env sshPath sec cert (pre @ rest) ?s1 =
     writeKeysToSSHDir_loop env sshPath sec cert rest
       (s\<lparr>stdout := stdout s @ concat (map (skip_report env (fs s) sshPath) (k # pre))\<rparr>)"
    by simp
  with loop_skip[OF k, of sec cert "pre @ rest"] show ?case by simp
qed

text \<open>Standard output does not influence the result or the filesystem.\<close>

lemma writeKeys_fs_only:
  assumes "fs s = fs s'"
  shows "fst (writeKeys env sp pp sec cert s) = fst (writeKeys env sp pp sec cert s') \<and>
         fs (snd (writeKeys env sp pp sec cert s)) = fs (snd (writeKeys env sp pp sec cert s'))"
  using assms
  by (simp add: writeKeys_def Println_fs Let_def split: prod.splits option.splits)

lemma loop_fs_only:
  assumes "fs s = fs s'"
  shows "fst (writeKeysToSSHDir_loop env sshPath sec cert cands s) =
           fst (writeKeysToSSHDir_loop env sshPath sec cert cands s') \<and>
         fs (snd (writeKeysToSSHDir_loop env sshPath sec cert cands s)) =
           fs (snd (writeKeysToSSHDir_loop env sshPath sec cert cands s'))"
  using assms
proof (induction cands arbitrary: s s')
  case Nil
  then show ?case by simp
next
  case (Cons k cands)
  let ?t = "s\<lparr>stdout := stdout s @ skip_report env (fs s) sshPath k\<rparr>"
  let ?t' = "s'\<lparr>stdout := stdout s' @ skip_report env (fs s') sshPath k\<rparr>"
  have "fs ?t = fs ?t'" using Cons.prems by simp
  note ih = Cons.IH[OF this]
  note wk = writeKeys_fs_only[OF Cons.prems, of env "slot_seckeyPath env sshPath k"
      "slot_pubkeyPath env sshPath k" sec cert]
  show ?case
    unfolding loop_Cons using ih wk Cons.prems by simp
qed

text \<open>
  A slot the scan passes over could as well be missing from the candidate list: the
  error returned and the filesystem left are the same.
\<close>

lemma loop_drop_skipped:
  assumes "slot_skipped env (fs s) sshPath k"
  shows "fst (writeKeysToSSHDir_loop env sshPath sec cert (pre @ k # rest) s) =
           fst (writeKeysToSSHDir_loop env sshPath sec cert (pre @ rest) s) \<and>
         fs (snd (writeKeysToSSHDir_loop env sshPath sec cert (pre @ k # rest) s)) =
           fs (snd (writeKeysToSSHDir_loop env sshPath sec cert (pre @ rest) s))"
  using assms
proof (induction pre arbitrary: s)
  case Nil
  let ?t = "s\<lparr>stdout := stdout s @ skip_report env (fs s) sshPath k\<rparr>"
  have "fs ?t = fs s" by simp
  from loop_fs_only[OF this, of env sshPath sec cert rest] loop_skip[OF Nil, of sec cert rest]
  show ?case by simp
next
  case (Cons j pre)
  let ?t = "s\<lparr>stdout := stdout s @ skip_report env (fs s) sshPath j\<rparr>"
  from Cons.prems have "slot_skipped env (fs ?t) sshPath k" by simp
  note ih = Cons.IH[OF this]
  show ?case
    using ih by (simp add: loop_Cons)
qed

text \<open>
  The loop ends in one of two ways: it has passed over every candidate, or it has
  called \<open>writeKeys\<close> on the two paths of one candidate.
\<close>

lemma loop_outcome:
  "(\<exists>s'. fs s' = fs s \<and>
      writeKeysToSSHDir_loop env sshPath sec cert cands s =
        (Some (ErrorString ''no default ssh key file free for openpubkey''), s')) \<or>
   (\<exists>k s'. k \<in> set cands \<and> fs s' = fs s \<and>
      writeKeysToSSHDir_loop env sshPath sec cert cands s =
        writeKeys env (filepath_Join env sshPath k) (filepath_Join env sshPath k @ ''.pub'')
          sec cert s')"
proof (induction cands arbitrary: s)
  case Nil
  show ?case by simp
next
  case (Cons j cands)
  let ?t = "s\<lparr>stdout := stdout s @ skip_report env (fs s) sshPath j\<rparr>"
  show ?case
  proof (cases "\<not> fileExists env (fs s) (slot_seckeyPath env sshPath j) \<or> slot_owned env (fs s) sshPath j")
    case True
    then have "writeKeysToSSHDir_loop env sshPath sec cert (j # cands) s =
        writeKeys env (filepath_Join env sshPath j) (filepath_Join env sshPath j @ ''.pub'')
          sec cert s"
      by (simp add: loop_Cons slot_seckeyPath_def slot_pubkeyPath_def)
    then have "\<exists>k s'. k \<in> set (j # cands) \<and> fs s' = fs s \<and>
      writeKeysToSSHDir_loop env sshPath sec cert (j # cands) s =
        writeKeys env (filepath_Join env sshPath k) (filepath_Join env sshPath k @ ''.pub'')
          sec cert s'"
      by (intro exI[of _ j] exI[of _ s]) simp
    then show ?thesis by blast
  next
    case False
    then have step: "writeKeysToSSHDir_loop env sshPath sec cert (j # cands) s =
        writeKeysToSSHDir_loop env sshPath sec cert cands ?t"
      by (simp add: loop_Cons)
    have same: "fs ?t = fs s" by simp
    from Cons.IH[of ?t] show ?thesis
      unfolding step same by (metis list.set_intros(2))
  qed
qed

section \<open>Certificate creation, step by step\<close>

text \<open>
  When every collaborator succeeds, \<open>createSSHCert\<close> returns the encoded certificate
  without its last byte and the encoded private key.
\<close>

lemma createSSHCert_run:
  assumes "client_OidcAuth lib client cxt signer alg [] gqFlag = Inr pkt"
    and "sshcert_New lib pkt principals = Inr cert"
    and "ssh_NewSignerFromSigner lib signer = Inr sshSigner"
    and "ssh_AlgorithmSigner lib sshSigner"
    and "ssh_NewSignerWithAlgorithms lib sshSigner [ssh_KeyAlgoECDSA256] = Inr signerMas"
    and "cert_SignCert lib cert signerMas = Inr sshCert"
    and "ssh_MarshalAuthorizedKey lib sshCert = line @ [c]"
    and "ssh_MarshalPrivateKey lib signer ''openpubkey cert'' = Inr seckeySsh"
  shows "createSSHCert lib cxt client signer alg gqFlag principals =
           Ok (line, pem_EncodeToMemory lib seckeySsh)"
  using assms by (simp add: createSSHCert_def)

text \<open>An error of the signer constructor or of the signing is the error returned.\<close>

lemma createSSHCert_signer_error:
  assumes "client_OidcAuth lib client cxt signer alg [] gqFlag = Inr pkt"
    and "sshcert_New lib pkt principals = Inr cert"
    and "ssh_NewSignerFromSigner lib signer = Inr sshSigner"
    and "ssh_AlgorithmSigner lib sshSigner"
    and "ssh_NewSignerWithAlgorithms lib sshSigner [ssh_KeyAlgoECDSA256] = Inl e \<or>
         (\<exists>signerMas. ssh_NewSignerWithAlgorithms lib sshSigner [ssh_KeyAlgoECDSA256] = Inr signerMas \<and>
            cert_SignCert lib cert signerMas = Inl e)"
  shows "createSSHCert lib cxt client signer alg gqFlag principals = Err e"
  using assms by (auto simp add: createSSHCert_def)

text \<open>
  \<open>createSSHCert\<close> asks the signer constructor for one algorithm list only, and
  \<open>Login\<close> asks the key generator for one algorithm and the binder for one principal
  list only.
\<close>

lemma createSSHCert_one_algorithm:
  assumes "\<forall>ss. f ss [ssh_KeyAlgoECDSA256] = ssh_NewSignerWithAlgorithms lib ss [ssh_KeyAlgoECDSA256]"
  shows "createSSHCert (lib\<lparr>ssh_NewSignerWithAlgorithms := f\<rparr>) cxt client signer alg gqFlag principals =
         createSSHCert lib cxt client signer alg gqFlag principals"
  using assms by (simp add: createSSHCert_def cong: sum.case_cong if_cong)

lemma createSSHCert_GenKeyPair:
  "createSSHCert (lib\<lparr>util_GenKeyPair := g\<rparr>) cxt client signer alg gqFlag principals =
   createSSHCert lib cxt client signer alg gqFlag principals"
  by (simp add: createSSHCert_def cong: sum.case_cong if_cong)

lemma createSSHCert_one_principal_list:
  assumes "\<forall>pkt. f pkt principals = sshcert_New lib pkt principals"
  shows "createSSHCert (lib\<lparr>sshcert_New := f\<rparr>) cxt client signer alg gqFlag principals =
         createSSHCert lib cxt client signer alg gqFlag principals"
  using assms by (simp add: createSSHCert_def cong: sum.case_cong if_cong)

lemmas lib_simps =
  mem_lib_def picky_NewSignerWithAlgorithms_def picky_GenKeyPair_def picky_New_def
  Login_def createSSHCert_def jwa_ES256_def ssh_KeyAlgoECDSA256_def

text \<open>Evaluation of the in-memory instance.\<close>

text \<open>
  The parser on the public-key files of the filesystems above: it reads the comment
  of a key line and finds no key in a word.
\<close>

lemmas parse_simps =
  mem_ParseAuthorizedKey_def key_line_def mem_parseKey_def TrimSpace_def is_space_def
  is_blank_def b64_value_def is_ed25519_key_def Let_def

lemma parse_key_line_openpubkey:
  "mem_ParseAuthorizedKey (key_line ''openpubkey'') = Inr ''openpubkey''"
  by (simp add: parse_simps)

lemma parse_key_line_Openpubkey:
  "mem_ParseAuthorizedKey (key_line ''Openpubkey'') = Inr ''Openpubkey''"
  by (simp add: parse_simps)

lemma parse_key_line_openpubkey2:
  "mem_ParseAuthorizedKey (key_line ''openpubkey2'') = Inr ''openpubkey2''"
  by (simp add: parse_simps)

lemma parse_key_line_host:
  "mem_ParseAuthorizedKey (key_line ''me@host'') = Inr ''me@host''"
  by (simp add: parse_simps)

lemma parse_garbage:
  "mem_ParseAuthorizedKey ''garbage'' = Inl (ErrorString ''ssh: no key found'')"
  by (simp add: parse_simps)

lemmas mem_simps =
  mem_sys_def mem_Open_def mem_ReadFile_def mem_WriteFile_def parse_key_line_openpubkey
  parse_key_line_Openpubkey parse_key_line_openpubkey2 parse_key_line_host parse_garbage
  fileExists_def slot_seckeyPath_def slot_pubkeyPath_def slot_skipped_def slot_inconclusive_def
  slot_foreign_def slot_owned_def skip_report_def writeKeys_def writeKeysToSSHDir_def
  writeKeysToSSHDir_loop.simps Println_def octal_def Let_def

section \<open>The claims\<close>

text \<open>
  C1, as stated, at a slot the scan does not reach: the first slot is free and the
  second holds an \<open>ssh-ed25519\<close> key whose parsed comment is the marker. The installer
  writes the first slot and returns; the two files of the second slot stay as they
  were.
\<close>

theorem overwrite_iff_marker_counterexample:
  "fileExists (mem_sys ''/h'') fs_dsa_owned ''/h/.ssh/id_dsa'' \<and>
   fileExists (mem_sys ''/h'') fs_dsa_owned ''/h/.ssh/id_dsa.pub'' \<and>
   os_ReadFile (mem_sys ''/h'') fs_dsa_owned ''/h/.ssh/id_dsa.pub'' = Inr (key_line ''openpubkey'') \<and>
   ssh_ParseAuthorizedKey (mem_sys ''/h'') (key_line ''openpubkey'') = Inr ''openpubkey'' \<and>
   fst (writeKeysToSSHDir (mem_sys ''/h'') ''PEM'' ''CERT'' \<lparr>fs = fs_dsa_owned, stdout = []\<rparr>) = None \<and>
   fs (snd (writeKeysToSSHDir (mem_sys ''/h'') ''PEM'' ''CERT'' \<lparr>fs = fs_dsa_owned, stdout = []\<rparr>)) =
     [(''/h/.ssh/id_dsa'', Regular ''old'' 384),
      (''/h/.ssh/id_dsa.pub'', Regular (key_line ''openpubkey'') 420),
      (''/h/.ssh/id_ecdsa'', Regular ''PEM'' 384),
      (''/h/.ssh/id_ecdsa.pub'', Regular ''CERT openpubkey'' 511)]"
  by (simp add: mem_simps fs_dsa_owned_def)

text \<open>
  C1, amended. For every candidate slot that the scan reaches (every earlier candidate
  is passed over), where the private-key file and the public-key file exist and the
  public file parses as an authorized-key entry: the installer overwrites that slot
  if and only if the parsed comment equals "openpubkey", by equality of the whole
  string; with any other comment it goes on to the remaining candidates on an
  unchanged filesystem.
\<close>

theorem overwrite_iff_marker_when_reached:
  assumes "os_UserHomeDir env = Inr homePath"
    and "sshPath = filepath_Join env homePath ''.ssh''"
    and "pre @ keyFilename # rest = [''id_ecdsa'', ''id_dsa'']"
    and "\<forall>k \<in> set pre. slot_skipped env (fs s) sshPath k"
    and "fileExists env (fs s) (slot_seckeyPath env sshPath keyFilename)"
    and "fileExists env (fs s) (slot_pubkeyPath env sshPath keyFilename)"
    and "os_ReadFile env (fs s) (slot_pubkeyPath env sshPath keyFilename) = Inr sshPubkey"
    and "ssh_ParseAuthorizedKey env sshPubkey = Inr comment"
  shows "\<exists>s'. fs s' = fs s \<and>
           writeKeysToSSHDir env seckeySshPem certBytes s =
             (if comment = ''openpubkey''
              then writeKeys env (slot_seckeyPath env sshPath keyFilename)
                     (slot_pubkeyPath env sshPath keyFilename) seckeySshPem certBytes s'
              else writeKeysToSSHDir_loop env sshPath seckeySshPem certBytes rest s')"
proof -
  let ?s1 = "s\<lparr>stdout := stdout s @ concat (map (skip_report env (fs s) sshPath) pre)\<rparr>"
  have w: "writeKeysToSSHDir env seckeySshPem certBytes s =
      writeKeysToSSHDir_loop env sshPath seckeySshPem certBytes (keyFilename # rest) ?s1"
    using assms(1,2,3) loop_skip_prefix[OF assms(4), of seckeySshPem certBytes "keyFilename # rest"]
    by (simp add: writeKeysToSSHDir_def)
  have o: "slot_owned env (fs ?s1) sshPath keyFilename = (comment = ''openpubkey'')"
    using assms(5-8) by (simp add: slot_owned_def)
  have r: "skip_report env (fs ?s1) sshPath keyFilename = []"
    using assms(6-8) by (simp add: skip_report_def)
  have "writeKeysToSSHDir env seckeySshPem certBytes s =
             (if comment = ''openpubkey''
              then writeKeys env (slot_seckeyPath env sshPath keyFilename)
                     (slot_pubkeyPath env sshPath keyFilename) seckeySshPem certBytes ?s1
              else writeKeysToSSHDir_loop env sshPath seckeySshPem certBytes rest ?s1)"
    unfolding w loop_Cons using o r assms(5) by simp
  moreover have "fs ?s1 = fs s" by simp
  ultimately show ?thesis by blast
qed

theorem overwrite_iff_marker_when_reached_witness:
  "(\<exists>s'. fs s' = fs_foreign_owned \<and>
      writeKeysToSSHDir (mem_sys ''/h'') ''PEM'' ''CERT'' \<lparr>fs = fs_foreign_owned, stdout = []\<rparr> =
        writeKeysToSSHDir_loop (mem_sys ''/h'') ''/h/.ssh'' ''PEM'' ''CERT'' [''id_dsa''] s') \<and>
   (\<exists>s'. fs s' = fs_foreign_owned \<and>
      writeKeysToSSHDir (mem_sys ''/h'') ''PEM'' ''CERT'' \<lparr>fs = fs_foreign_owned, stdout = []\<rparr> =
        writeKeys (mem_sys ''/h'') ''/h/.ssh/id_dsa'' ''/h/.ssh/id_dsa.pub'' ''PEM'' ''CERT'' s') \<and>
   fs (snd (writeKeysToSSHDir (mem_sys ''/h'') ''PEM'' ''CERT'' \<lparr>fs = fs_foreign_owned, stdout = []\<rparr>)) =
     [(''/h/.ssh/id_ecdsa'', Regular ''old'' 384),
      (''/h/.ssh/id_ecdsa.pub'', Regular (key_line ''Openpubkey'') 420),
      (''/h/.ssh/id_dsa'', Regular ''PEM'' 384),
      (''/h/.ssh/id_dsa.pub'', Regular ''CERT openpubkey'' 420)]"
proof -
  let ?E = "mem_sys ''/h''"
  let ?S = "\<lparr>fs = fs_foreign_owned, stdout = []\<rparr>"
  have h1: "os_UserHomeDir ?E = Inr ''/h''"
    by (simp add: mem_sys_def)
  have h2: "''/h/.ssh'' = filepath_Join ?E ''/h'' ''.ssh''"
    by (simp add: mem_sys_def)
  have a3: "[] @ ''id_ecdsa'' # [''id_dsa''] = [''id_ecdsa'', ''id_dsa'']"
    by simp
  have a4: "\<forall>k \<in> set []. slot_skipped ?E (fs ?S) ''/h/.ssh'' k"
    by simp
  have a5: "fileExists ?E (fs ?S) (slot_seckeyPath ?E ''/h/.ssh'' ''id_ecdsa'')"
    by (simp add: mem_simps fs_foreign_owned_def)
  have a6: "fileExists ?E (fs ?S) (slot_pubkeyPath ?E ''/h/.ssh'' ''id_ecdsa'')"
    by (simp add: mem_simps fs_foreign_owned_def)
  have a7: "os_ReadFile ?E (fs ?S) (slot_pubkeyPath ?E ''/h/.ssh'' ''id_ecdsa'') =
      Inr (key_line ''Openpubkey'')"
    by (simp add: mem_simps fs_foreign_owned_def)
  have a8: "ssh_ParseAuthorizedKey ?E (key_line ''Openpubkey'') = Inr ''Openpubkey''"
    by (simp add: mem_simps)
  have b3: "[''id_ecdsa''] @ ''id_dsa'' # [] = [''id_ecdsa'', ''id_dsa'']"
    by simp
  have b4: "\<forall>k \<in> set [''id_ecdsa'']. slot_skipped ?E (fs ?S) ''/h/.ssh'' k"
    by (simp add: mem_simps fs_foreign_owned_def)
  have b5: "fileExists ?E (fs ?S) (slot_seckeyPath ?E ''/h/.ssh'' ''id_dsa'')"
    by (simp add: mem_simps fs_foreign_owned_def)
  have b6: "fileExists ?E (fs ?S) (slot_pubkeyPath ?E ''/h/.ssh'' ''id_dsa'')"
    by (simp add: mem_simps fs_foreign_owned_def)
  have b7: "os_ReadFile ?E (fs ?S) (slot_pubkeyPath ?E ''/h/.ssh'' ''id_dsa'') =
      Inr (key_line ''openpubkey'')"
    by (simp add: mem_simps fs_foreign_owned_def)
  have b8: "ssh_ParseAuthorizedKey ?E (key_line ''openpubkey'') = Inr ''openpubkey''"
    by (simp add: mem_simps)
  have p: "slot_seckeyPath ?E ''/h/.ssh'' ''id_dsa'' = ''/h/.ssh/id_dsa''"
    "slot_pubkeyPath ?E ''/h/.ssh'' ''id_dsa'' = ''/h/.ssh/id_dsa.pub''"
    by (simp_all add: mem_simps)
  have e: "fs (snd (writeKeysToSSHDir ?E ''PEM'' ''CERT'' ?S)) =
     [(''/h/.ssh/id_ecdsa'', Regular ''old'' 384),
      (''/h/.ssh/id_ecdsa.pub'', Regular (key_line ''Openpubkey'') 420),
      (''/h/.ssh/id_dsa'', Regular ''PEM'' 384),
      (''/h/.ssh/id_dsa.pub'', Regular ''CERT openpubkey'' 420)]"
    by (simp add: mem_simps fs_foreign_owned_def)
  from overwrite_iff_marker_when_reached[OF h1 h2 a3 a4 a5 a6 a7 a8, of "''PEM''" "''CERT''"]
  have first: "\<exists>s'. fs s' = fs_foreign_owned \<and>
      writeKeysToSSHDir ?E ''PEM'' ''CERT'' ?S =
        writeKeysToSSHDir_loop ?E ''/h/.ssh'' ''PEM'' ''CERT'' [''id_dsa''] s'"
    by simp
  from overwrite_iff_marker_when_reached[OF h1 h2 b3 b4 b5 b6 b7 b8, of "''PEM''" "''CERT''"]
  have second: "\<exists>s'. fs s' = fs_foreign_owned \<and>
      writeKeysToSSHDir ?E ''PEM'' ''CERT'' ?S =
        writeKeys ?E ''/h/.ssh/id_dsa'' ''/h/.ssh/id_dsa.pub'' ''PEM'' ''CERT'' s'"
    by (simp add: p)
  from first second e show ?thesis by blast
qed

text \<open>
  C2, as stated, when an earlier slot is owned by the tool: the first slot holds an
  \<open>ssh-ed25519\<close> key whose comment is the marker and the private-key file of the second slot does
  not exist. The second slot is the first candidate whose private-key path does not
  exist, and nothing is written to it: the installer overwrites the first slot.
\<close>

theorem first_free_slot_counterexample:
  "fileExists (mem_sys ''/h'') fs_ecdsa_owned ''/h/.ssh/id_ecdsa'' \<and>
   os_ReadFile (mem_sys ''/h'') fs_ecdsa_owned ''/h/.ssh/id_ecdsa.pub'' = Inr (key_line ''openpubkey'') \<and>
   ssh_ParseAuthorizedKey (mem_sys ''/h'') (key_line ''openpubkey'') = Inr ''openpubkey'' \<and>
   \<not> fileExists (mem_sys ''/h'') fs_ecdsa_owned ''/h/.ssh/id_dsa'' \<and>
   fst (writeKeysToSSHDir (mem_sys ''/h'') ''PEM'' ''CERT'' \<lparr>fs = fs_ecdsa_owned, stdout = []\<rparr>) = None \<and>
   fs (snd (writeKeysToSSHDir (mem_sys ''/h'') ''PEM'' ''CERT'' \<lparr>fs = fs_ecdsa_owned, stdout = []\<rparr>)) =
     [(''/h/.ssh/id_ecdsa'', Regular ''PEM'' 384),
      (''/h/.ssh/id_ecdsa.pub'', Regular ''CERT openpubkey'' 420)]"
  by (simp add: mem_simps fs_ecdsa_owned_def)

text \<open>
  C2, amended. The installer tries "id_ecdsa", then "id_dsa". When every candidate
  before the first one whose private-key path does not exist is passed over (none of
  them is owned by the tool), the installer writes the pair to that slot, with the
  public path the private path followed by ".pub", and returns the result of that
  write; no later candidate is looked at.
\<close>

theorem first_free_slot_when_reached:
  assumes "os_UserHomeDir env = Inr homePath"
    and "sshPath = filepath_Join env homePath ''.ssh''"
    and "pre @ keyFilename # rest = [''id_ecdsa'', ''id_dsa'']"
    and "\<forall>k \<in> set pre. slot_skipped env (fs s) sshPath k"
    and "\<not> fileExists env (fs s) (filepath_Join env sshPath keyFilename)"
  shows "\<exists>s'. fs s' = fs s \<and>
           writeKeysToSSHDir env seckeySshPem certBytes s =
             writeKeys env (filepath_Join env sshPath keyFilename)
               (filepath_Join env sshPath keyFilename @ ''.pub'') seckeySshPem certBytes s'"
proof -
  let ?s1 = "s\<lparr>stdout := stdout s @ concat (map (skip_report env (fs s) sshPath) pre)\<rparr>"
  have w: "writeKeysToSSHDir env seckeySshPem certBytes s =
      writeKeysToSSHDir_loop env sshPath seckeySshPem certBytes (keyFilename # rest) ?s1"
    using assms(1,2,3) loop_skip_prefix[OF assms(4), of seckeySshPem certBytes "keyFilename # rest"]
    by (simp add: writeKeysToSSHDir_def)
  have "writeKeysToSSHDir env seckeySshPem certBytes s =
             writeKeys env (filepath_Join env sshPath keyFilename)
               (filepath_Join env sshPath keyFilename @ ''.pub'') seckeySshPem certBytes ?s1"
    unfolding w loop_Cons using assms(5) by (simp add: slot_seckeyPath_def slot_pubkeyPath_def)
  moreover have "fs ?s1 = fs s" by simp
  ultimately show ?thesis by blast
qed

theorem first_free_slot_when_reached_witness:
  "slot_skipped (mem_sys ''/h'') fs_foreign ''/h/.ssh'' ''id_ecdsa'' \<and>
   \<not> fileExists (mem_sys ''/h'') fs_foreign ''/h/.ssh/id_dsa'' \<and>
   (\<exists>s'. fs s' = fs_foreign \<and>
      writeKeysToSSHDir (mem_sys ''/h'') ''PEM'' ''CERT'' \<lparr>fs = fs_foreign, stdout = []\<rparr> =
        writeKeys (mem_sys ''/h'') ''/h/.ssh/id_dsa'' ''/h/.ssh/id_dsa.pub'' ''PEM'' ''CERT'' s') \<and>
   fs (snd (writeKeysToSSHDir (mem_sys ''/h'') ''PEM'' ''CERT'' \<lparr>fs = fs_foreign, stdout = []\<rparr>)) =
     [(''/h/.ssh/id_ecdsa'', Regular ''old'' 384),
      (''/h/.ssh/id_ecdsa.pub'', Regular (key_line ''openpubkey2'') 420),
      (''/h/.ssh/id_dsa'', Regular ''PEM'' 384),
      (''/h/.ssh/id_dsa.pub'', Regular ''CERT openpubkey'' 511)]"
proof -
  let ?E = "mem_sys ''/h''"
  let ?S = "\<lparr>fs = fs_foreign, stdout = []\<rparr>"
  have h1: "os_UserHomeDir ?E = Inr ''/h''"
    by (simp add: mem_sys_def)
  have h2: "''/h/.ssh'' = filepath_Join ?E ''/h'' ''.ssh''"
    by (simp add: mem_sys_def)
  have h3: "[''id_ecdsa''] @ ''id_dsa'' # [] = [''id_ecdsa'', ''id_dsa'']"
    by simp
  have sk: "slot_skipped ?E fs_foreign ''/h/.ssh'' ''id_ecdsa''"
    by (simp add: mem_simps fs_foreign_def)
  then have h4: "\<forall>k \<in> set [''id_ecdsa'']. slot_skipped ?E (fs ?S) ''/h/.ssh'' k"
    by simp
  have nf: "\<not> fileExists ?E fs_foreign ''/h/.ssh/id_dsa''"
    by (simp add: mem_simps fs_foreign_def)
  have j: "filepath_Join ?E ''/h/.ssh'' ''id_dsa'' = ''/h/.ssh/id_dsa''"
    by (simp add: mem_sys_def)
  from nf have h5: "\<not> fileExists ?E (fs ?S) (filepath_Join ?E ''/h/.ssh'' ''id_dsa'')"
    by (simp add: j)
  have e: "fs (snd (writeKeysToSSHDir ?E ''PEM'' ''CERT'' ?S)) =
     [(''/h/.ssh/id_ecdsa'', Regular ''old'' 384),
      (''/h/.ssh/id_ecdsa.pub'', Regular (key_line ''openpubkey2'') 420),
      (''/h/.ssh/id_dsa'', Regular ''PEM'' 384),
      (''/h/.ssh/id_dsa.pub'', Regular ''CERT openpubkey'' 511)]"
    by (simp add: mem_simps fs_foreign_def)
  from first_free_slot_when_reached[OF h1 h2 h3 h4 h5, of "''PEM''" "''CERT''"]
  have "\<exists>s'. fs s' = fs_foreign \<and>
      writeKeysToSSHDir ?E ''PEM'' ''CERT'' ?S =
        writeKeys ?E ''/h/.ssh/id_dsa'' ''/h/.ssh/id_dsa.pub'' ''PEM'' ''CERT'' s'"
    by (simp add: j)
  with sk nf e show ?thesis by blast
qed




text \<open>
  C4. When every candidate slot is passed over (its private-key file exists, and its
  public-key file is missing, unreadable, unparseable or carries a foreign comment),
  \<open>writeKeysToSSHDir\<close> returns the error "no default ssh key file free for openpubkey"
  and leaves the filesystem as it found it.
\<close>

theorem no_slot_leaves_filesystem:
  assumes "os_UserHomeDir env = Inr homePath"
    and "\<forall>k \<in> set [''id_ecdsa'', ''id_dsa''].
           slot_skipped env (fs s) (filepath_Join env homePath ''.ssh'') k"
  shows "\<exists>s'. writeKeysToSSHDir env seckeySshPem certBytes s =
                (Some (ErrorString ''no default ssh key file free for openpubkey''), s') \<and>
              fs s' = fs s"
proof -
  from loop_skip_prefix[OF assms(2), of seckeySshPem certBytes "[]"] assms(1)
  show ?thesis by (simp add: writeKeysToSSHDir_def)
qed

theorem no_slot_leaves_filesystem_witness:
  "slot_skipped (mem_sys ''/h'') fs_exhausted ''/h/.ssh'' ''id_ecdsa'' \<and>
   slot_skipped (mem_sys ''/h'') fs_exhausted ''/h/.ssh'' ''id_dsa'' \<and>
   (\<exists>s'. writeKeysToSSHDir (mem_sys ''/h'') ''PEM'' ''CERT'' \<lparr>fs = fs_exhausted, stdout = []\<rparr> =
           (Some (ErrorString ''no default ssh key file free for openpubkey''), s') \<and>
         fs s' = fs_exhausted)"
proof -
  have h1: "os_UserHomeDir (mem_sys ''/h'') = Inr ''/h''"
    by (simp add: mem_sys_def)
  have j: "filepath_Join (mem_sys ''/h'') ''/h'' ''.ssh'' = ''/h/.ssh''"
    by (simp add: mem_sys_def)
  have a: "slot_skipped (mem_sys ''/h'') fs_exhausted ''/h/.ssh'' ''id_ecdsa''"
    by (simp add: mem_simps fs_exhausted_def)
  have b: "slot_skipped (mem_sys ''/h'') fs_exhausted ''/h/.ssh'' ''id_dsa''"
    by (simp add: mem_simps fs_exhausted_def)
  have h2: "\<forall>k \<in> set [''id_ecdsa'', ''id_dsa''].
      slot_skipped (mem_sys ''/h'') (fs \<lparr>fs = fs_exhausted, stdout = []\<rparr>)
        (filepath_Join (mem_sys ''/h'') ''/h'' ''.ssh'') k"
    using a b by (simp add: j)
  from no_slot_leaves_filesystem[OF h1 h2, of "''PEM''" "''CERT''"] a b
  show ?thesis by simp
qed

text \<open>
  C5. A candidate slot whose private-key file exists and whose public-key file is
  missing, cannot be read or does not parse is not written, and the search goes on
  with the next candidate: wherever the slot stands among the candidates, the
  installer returns the error and leaves the filesystem that the search over the
  other candidates gives; and from that slot the loop continues with the remaining
  candidates on an unchanged filesystem.
\<close>

theorem inconclusive_slot_passed_over:
  assumes "os_UserHomeDir env = Inr homePath"
    and "sshPath = filepath_Join env homePath ''.ssh''"
    and "pre @ keyFilename # rest = [''id_ecdsa'', ''id_dsa'']"
    and "slot_inconclusive env (fs s) sshPath keyFilename"
  shows "fst (writeKeysToSSHDir env seckeySshPem certBytes s) =
           fst (writeKeysToSSHDir_loop env sshPath seckeySshPem certBytes (pre @ rest) s) \<and>
         fs (snd (writeKeysToSSHDir env seckeySshPem certBytes s)) =
           fs (snd (writeKeysToSSHDir_loop env sshPath seckeySshPem certBytes (pre @ rest) s)) \<and>
         (\<exists>s'. fs s' = fs s \<and>
            writeKeysToSSHDir_loop env sshPath seckeySshPem certBytes (keyFilename # rest) s =
            writeKeysToSSHDir_loop env sshPath seckeySshPem certBytes rest s')"
proof -
  from assms(4) have sk: "slot_skipped env (fs s) sshPath keyFilename"
    by (simp add: slot_skipped_def)
  have w: "writeKeysToSSHDir env seckeySshPem certBytes s =
      writeKeysToSSHDir_loop env sshPath seckeySshPem certBytes (pre @ keyFilename # rest) s"
    using assms(1,2,3) by (simp add: writeKeysToSSHDir_def)
  let ?t = "s\<lparr>stdout := stdout s @ skip_report env (fs s) sshPath keyFilename\<rparr>"
  have "fs ?t = fs s" by simp
  with loop_skip[OF sk, of seckeySshPem certBytes rest]
  have "\<exists>s'. fs s' = fs s \<and>
            writeKeysToSSHDir_loop env sshPath seckeySshPem certBytes (keyFilename # rest) s =
            writeKeysToSSHDir_loop env sshPath seckeySshPem certBytes rest s'"
    by blast
  with loop_drop_skipped[OF sk, of seckeySshPem certBytes pre rest] w show ?thesis
    by simp
qed

theorem inconclusive_slot_passed_over_witness:
  "slot_inconclusive (mem_sys ''/h'') fs_garbled ''/h/.ssh'' ''id_ecdsa'' \<and>
   fst (writeKeysToSSHDir (mem_sys ''/h'') ''PEM'' ''CERT'' \<lparr>fs = fs_garbled, stdout = []\<rparr>) =
     fst (writeKeysToSSHDir_loop (mem_sys ''/h'') ''/h/.ssh'' ''PEM'' ''CERT'' [''id_dsa'']
            \<lparr>fs = fs_garbled, stdout = []\<rparr>) \<and>
   fs (snd (writeKeysToSSHDir (mem_sys ''/h'') ''PEM'' ''CERT'' \<lparr>fs = fs_garbled, stdout = []\<rparr>)) =
     [(''/h/.ssh/id_ecdsa'', Regular ''old'' 384),
      (''/h/.ssh/id_ecdsa.pub'', Regular ''garbage'' 420),
      (''/h/.ssh/id_dsa'', Regular ''PEM'' 384),
      (''/h/.ssh/id_dsa.pub'', Regular ''CERT openpubkey'' 511)]"
proof -
  have h1: "os_UserHomeDir (mem_sys ''/h'') = Inr ''/h''"
    by (simp add: mem_sys_def)
  have h2: "''/h/.ssh'' = filepath_Join (mem_sys ''/h'') ''/h'' ''.ssh''"
    by (simp add: mem_sys_def)
  have h3: "[] @ ''id_ecdsa'' # [''id_dsa''] = [''id_ecdsa'', ''id_dsa'']"
    by simp
  have h4: "slot_inconclusive (mem_sys ''/h'') (fs \<lparr>fs = fs_garbled, stdout = []\<rparr>)
      ''/h/.ssh'' ''id_ecdsa''"
    by (simp add: mem_simps fs_garbled_def)
  have e: "fs (snd (writeKeysToSSHDir_loop (mem_sys ''/h'') ''/h/.ssh'' ''PEM'' ''CERT'' [''id_dsa'']
            \<lparr>fs = fs_garbled, stdout = []\<rparr>)) =
     [(''/h/.ssh/id_ecdsa'', Regular ''old'' 384),
      (''/h/.ssh/id_ecdsa.pub'', Regular ''garbage'' 420),
      (''/h/.ssh/id_dsa'', Regular ''PEM'' 384),
      (''/h/.ssh/id_dsa.pub'', Regular ''CERT openpubkey'' 511)]"
    by (simp add: mem_simps fs_garbled_def)
  from inconclusive_slot_passed_over[OF h1 h2 h3 h4, of "''PEM''" "''CERT''"] h4 e
  show ?thesis by simp
qed

text \<open>
  C6. In the write step the private-key file is written first: when that write
  fails, \<open>writeKeys\<close> returns its error as it is, prints nothing, and the filesystem
  is the one the failed write left, so no write of the public-key file takes place;
  when it succeeds, the public-key file is written on the filesystem it left. The
  installer calls the write step only with a public path that is the private path
  of the same candidate followed by ".pub".
\<close>

theorem private_key_written_first:
  "(os_WriteFile env (fs s) seckeyPath seckeySshPem (octal [0, 6, 0, 0]) = (Some err, w1) \<longrightarrow>
      writeKeys env seckeyPath pubkeyPath seckeySshPem certBytes s = (Some err, s\<lparr>fs := w1\<rparr>)) \<and>
   (os_WriteFile env (fs s) seckeyPath seckeySshPem (octal [0, 6, 0, 0]) = (None, w1) \<longrightarrow>
      fst (writeKeys env seckeyPath pubkeyPath seckeySshPem certBytes s) =
        fst (os_WriteFile env w1 pubkeyPath (certBytes @ '' openpubkey'') (octal [0, 7, 7, 7])) \<and>
      fs (snd (writeKeys env seckeyPath pubkeyPath seckeySshPem certBytes s)) =
        snd (os_WriteFile env w1 pubkeyPath (certBytes @ '' openpubkey'') (octal [0, 7, 7, 7])) \<and>
      stdout (snd (writeKeys env seckeyPath pubkeyPath seckeySshPem certBytes s)) =
        stdout s @ Sprintln [''writing secret key to'', seckeyPath] @
          Sprintln [''writing public key to'', pubkeyPath]) \<and>
   (os_UserHomeDir env = Inr homePath \<longrightarrow>
      (\<exists>s'. fs s' = fs s \<and>
         writeKeysToSSHDir env seckeySshPem certBytes s =
           (Some (ErrorString ''no default ssh key file free for openpubkey''), s')) \<or>
      (\<exists>k s'. k \<in> set [''id_ecdsa'', ''id_dsa''] \<and> fs s' = fs s \<and>
         writeKeysToSSHDir env seckeySshPem certBytes s =
           writeKeys env (filepath_Join env (filepath_Join env homePath ''.ssh'') k)
             (filepath_Join env (filepath_Join env homePath ''.ssh'') k @ ''.pub'')
             seckeySshPem certBytes s'))"
proof -
  have a: "os_WriteFile env (fs s) seckeyPath seckeySshPem (octal [0, 6, 0, 0]) = (Some err, w1) \<longrightarrow>
      writeKeys env seckeyPath pubkeyPath seckeySshPem certBytes s = (Some err, s\<lparr>fs := w1\<rparr>)"
    by (simp add: writeKeys_def)
  have b: "os_WriteFile env (fs s) seckeyPath seckeySshPem (octal [0, 6, 0, 0]) = (None, w1) \<longrightarrow>
      fst (writeKeys env seckeyPath pubkeyPath seckeySshPem certBytes s) =
        fst (os_WriteFile env w1 pubkeyPath (certBytes @ '' openpubkey'') (octal [0, 7, 7, 7])) \<and>
      fs (snd (writeKeys env seckeyPath pubkeyPath seckeySshPem certBytes s)) =
        snd (os_WriteFile env w1 pubkeyPath (certBytes @ '' openpubkey'') (octal [0, 7, 7, 7])) \<and>
      stdout (snd (writeKeys env seckeyPath pubkeyPath seckeySshPem certBytes s)) =
        stdout s @ Sprintln [''writing secret key to'', seckeyPath] @
          Sprintln [''writing public key to'', pubkeyPath]"
    by (simp add: writeKeys_def Println_def Let_def split: prod.splits)
  have c: "os_UserHomeDir env = Inr homePath \<longrightarrow>
      (\<exists>s'. fs s' = fs s \<and>
         writeKeysToSSHDir env seckeySshPem certBytes s =
           (Some (ErrorString ''no default ssh key file free for openpubkey''), s')) \<or>
      (\<exists>k s'. k \<in> set [''id_ecdsa'', ''id_dsa''] \<and> fs s' = fs s \<and>
         writeKeysToSSHDir env seckeySshPem certBytes s =
           writeKeys env (filepath_Join env (filepath_Join env homePath ''.ssh'') k)
             (filepath_Join env (filepath_Join env homePath ''.ssh'') k @ ''.pub'')
             seckeySshPem certBytes s')"
    using loop_outcome[of s env "filepath_Join env homePath ''.ssh''" seckeySshPem certBytes
        "[''id_ecdsa'', ''id_dsa'']"]
    by (simp add: writeKeysToSSHDir_def)
  from a b c show ?thesis by blast
qed

theorem private_key_written_first_witness:
  "writeKeys (mem_sys ''/h'') ''/h/.ssh/id_ecdsa'' ''/h/.ssh/id_ecdsa.pub'' ''PEM'' ''CERT''
     \<lparr>fs = fs_denied, stdout = []\<rparr> =
     (Some (WrapError ''open /h/.ssh/id_ecdsa'' (ErrorString ''permission denied'')),
      \<lparr>fs = fs_denied, stdout = []\<rparr>) \<and>
   fs (snd (writeKeys (mem_sys ''/h'') ''/h/.ssh/id_dsa'' ''/h/.ssh/id_dsa.pub'' ''PEM'' ''CERT''
     \<lparr>fs = fs_denied, stdout = []\<rparr>)) =
     [(''/h/.ssh/id_ecdsa'', Denied), (''/h/.ssh/id_dsa'', Regular ''PEM'' 384),
      (''/h/.ssh/id_dsa.pub'', Regular ''CERT openpubkey'' 511)] \<and>
   (\<exists>k s'. k \<in> set [''id_ecdsa'', ''id_dsa''] \<and> fs s' = fs_denied \<and>
      writeKeysToSSHDir (mem_sys ''/h'') ''PEM'' ''CERT'' \<lparr>fs = fs_denied, stdout = []\<rparr> =
        writeKeys (mem_sys ''/h'') (''/h/.ssh/'' @ k) (''/h/.ssh/'' @ k @ ''.pub'') ''PEM'' ''CERT'' s')"
proof -
  let ?E = "mem_sys ''/h''"
  let ?S = "\<lparr>fs = fs_denied, stdout = []\<rparr>"
  note t1 = private_key_written_first[of ?E ?S "''/h/.ssh/id_ecdsa''" "''PEM''"
      "WrapError ''open /h/.ssh/id_ecdsa'' (ErrorString ''permission denied'')" fs_denied
      "''/h/.ssh/id_ecdsa.pub''" "''CERT''" "''/h''"]
  note t2 = private_key_written_first[of ?E ?S "''/h/.ssh/id_dsa''" "''PEM''" ErrNotExist
      "[(''/h/.ssh/id_ecdsa'', Denied), (''/h/.ssh/id_dsa'', Regular ''PEM'' 384)]"
      "''/h/.ssh/id_dsa.pub''" "''CERT''" "''/h''"]
  have w1: "os_WriteFile ?E (fs ?S) ''/h/.ssh/id_ecdsa'' ''PEM'' (octal [0, 6, 0, 0]) =
      (Some (WrapError ''open /h/.ssh/id_ecdsa'' (ErrorString ''permission denied'')), fs_denied)"
    by (simp add: mem_simps fs_denied_def)
  have w2: "os_WriteFile ?E (fs ?S) ''/h/.ssh/id_dsa'' ''PEM'' (octal [0, 6, 0, 0]) =
      (None, [(''/h/.ssh/id_ecdsa'', Denied), (''/h/.ssh/id_dsa'', Regular ''PEM'' 384)])"
    by (simp add: mem_simps fs_denied_def)
  have w3: "snd (os_WriteFile ?E [(''/h/.ssh/id_ecdsa'', Denied), (''/h/.ssh/id_dsa'', Regular ''PEM'' 384)]
      ''/h/.ssh/id_dsa.pub'' (''CERT'' @ '' openpubkey'') (octal [0, 7, 7, 7])) =
     [(''/h/.ssh/id_ecdsa'', Denied), (''/h/.ssh/id_dsa'', Regular ''PEM'' 384),
      (''/h/.ssh/id_dsa.pub'', Regular ''CERT openpubkey'' 511)]"
    by (simp add: mem_simps)
  have h: "os_UserHomeDir ?E = Inr ''/h''"
    by (simp add: mem_sys_def)
  have j: "\<And>k. filepath_Join ?E (filepath_Join ?E ''/h'' ''.ssh'') k = ''/h/.ssh/'' @ k"
    by (simp add: mem_sys_def)
  have ne: "fst (writeKeysToSSHDir ?E ''PEM'' ''CERT'' ?S) = None"
    by (simp add: mem_simps fs_denied_def)
  from t1 w1 have c1: "writeKeys ?E ''/h/.ssh/id_ecdsa'' ''/h/.ssh/id_ecdsa.pub'' ''PEM'' ''CERT'' ?S =
     (Some (WrapError ''open /h/.ssh/id_ecdsa'' (ErrorString ''permission denied'')), ?S)"
    by simp
  from t2 w2 w3 have c2: "fs (snd (writeKeys ?E ''/h/.ssh/id_dsa'' ''/h/.ssh/id_dsa.pub'' ''PEM'' ''CERT'' ?S)) =
     [(''/h/.ssh/id_ecdsa'', Denied), (''/h/.ssh/id_dsa'', Regular ''PEM'' 384),
      (''/h/.ssh/id_dsa.pub'', Regular ''CERT openpubkey'' 511)]"
    by simp
  from t1 h ne have c3: "\<exists>k s'. k \<in> set [''id_ecdsa'', ''id_dsa''] \<and> fs s' = fs_denied \<and>
      writeKeysToSSHDir ?E ''PEM'' ''CERT'' ?S =
        writeKeys ?E (''/h/.ssh/'' @ k) (''/h/.ssh/'' @ k @ ''.pub'') ''PEM'' ''CERT'' s'"
    unfolding j by auto
  from c1 c2 c3 show ?thesis by blast
qed

text \<open>
  C9. \<open>fileExists\<close> answers "exists" for every path whose \<open>os.Open\<close> fails with an
  error that is not, and does not wrap, \<open>os.ErrNotExist\<close>, and answers "does not
  exist" only when \<open>os.Open\<close> fails with \<open>os.ErrNotExist\<close>. A slot whose private-key
  file cannot be opened for another reason is therefore never written as a free
  slot: the loop writes it only when it is owned (both files exist and the public
  file parses with the marker as comment) and passes it over otherwise.
\<close>

theorem unopenable_private_key_is_occupied:
  "(os_Open env w fPath = Some err \<and> \<not> unwraps_to err ErrNotExist \<longrightarrow> fileExists env w fPath) \<and>
   (\<not> fileExists env w fPath \<longrightarrow> (\<exists>e. os_Open env w fPath = Some e \<and> unwraps_to e ErrNotExist)) \<and>
   (os_Open env (fs s) (filepath_Join env sshPath keyFilename) = Some err \<and>
    \<not> unwraps_to err ErrNotExist \<longrightarrow>
      writeKeysToSSHDir_loop env sshPath seckeySshPem certBytes (keyFilename # rest) s =
        (if slot_owned env (fs s) sshPath keyFilename
         then writeKeys env (filepath_Join env sshPath keyFilename)
                (filepath_Join env sshPath keyFilename @ ''.pub'') seckeySshPem certBytes s
         else writeKeysToSSHDir_loop env sshPath seckeySshPem certBytes rest
                (s\<lparr>stdout := stdout s @ skip_report env (fs s) sshPath keyFilename\<rparr>)))"
proof -
  have a: "os_Open env w fPath = Some err \<and> \<not> unwraps_to err ErrNotExist \<longrightarrow>
      fileExists env w fPath"
    by (simp add: fileExists_def)
  have b: "\<not> fileExists env w fPath \<longrightarrow>
      (\<exists>e. os_Open env w fPath = Some e \<and> unwraps_to e ErrNotExist)"
    by (cases "os_Open env w fPath") (simp_all add: fileExists_def)
  have c: "os_Open env (fs s) (filepath_Join env sshPath keyFilename) = Some err \<and>
    \<not> unwraps_to err ErrNotExist \<longrightarrow>
      writeKeysToSSHDir_loop env sshPath seckeySshPem certBytes (keyFilename # rest) s =
        (if slot_owned env (fs s) sshPath keyFilename
         then writeKeys env (filepath_Join env sshPath keyFilename)
                (filepath_Join env sshPath keyFilename @ ''.pub'') seckeySshPem certBytes s
         else writeKeysToSSHDir_loop env sshPath seckeySshPem certBytes rest
                (s\<lparr>stdout := stdout s @ skip_report env (fs s) sshPath keyFilename\<rparr>))"
    by (simp add: loop_Cons fileExists_def slot_seckeyPath_def slot_pubkeyPath_def)
  from a b c show ?thesis by blast
qed

theorem unopenable_private_key_is_occupied_witness:
  "os_Open (mem_sys ''/h'') fs_denied ''/h/.ssh/id_ecdsa'' =
     Some (WrapError ''open /h/.ssh/id_ecdsa'' (ErrorString ''permission denied'')) \<and>
   fileExists (mem_sys ''/h'') fs_denied ''/h/.ssh/id_ecdsa'' \<and>
   os_Open (mem_sys ''/h'') fs_denied ''/h/.ssh/id_dsa'' =
     Some (WrapError ''open /h/.ssh/id_dsa'' ErrNotExist) \<and>
   \<not> fileExists (mem_sys ''/h'') fs_denied ''/h/.ssh/id_dsa'' \<and>
   writeKeysToSSHDir_loop (mem_sys ''/h'') ''/h/.ssh'' ''PEM'' ''CERT'' [''id_ecdsa'', ''id_dsa'']
     \<lparr>fs = fs_denied, stdout = []\<rparr> =
   writeKeysToSSHDir_loop (mem_sys ''/h'') ''/h/.ssh'' ''PEM'' ''CERT'' [''id_dsa'']
     \<lparr>fs = fs_denied, stdout = []\<rparr> \<and>
   fs (snd (writeKeysToSSHDir_loop (mem_sys ''/h'') ''/h/.ssh'' ''PEM'' ''CERT'' [''id_ecdsa'', ''id_dsa'']
     \<lparr>fs = fs_denied, stdout = []\<rparr>)) =
     [(''/h/.ssh/id_ecdsa'', Denied), (''/h/.ssh/id_dsa'', Regular ''PEM'' 384),
      (''/h/.ssh/id_dsa.pub'', Regular ''CERT openpubkey'' 511)]"
proof -
  let ?E = "mem_sys ''/h''"
  let ?S = "\<lparr>fs = fs_denied, stdout = []\<rparr>"
  let ?err = "WrapError ''open /h/.ssh/id_ecdsa'' (ErrorString ''permission denied'')"
  note t = unopenable_private_key_is_occupied[of ?E fs_denied "''/h/.ssh/id_ecdsa''" ?err ?S
      "''/h/.ssh''" "''id_ecdsa''" "''PEM''" "''CERT''" "[''id_dsa'']"]
  have o: "os_Open ?E fs_denied ''/h/.ssh/id_ecdsa'' = Some ?err"
    by (simp add: mem_simps fs_denied_def)
  have n: "\<not> unwraps_to ?err ErrNotExist"
    by simp
  have j: "filepath_Join ?E ''/h/.ssh'' ''id_ecdsa'' = ''/h/.ssh/id_ecdsa''"
    by (simp add: mem_sys_def)
  have no: "\<not> slot_owned ?E fs_denied ''/h/.ssh'' ''id_ecdsa''"
    by (simp add: mem_simps fs_denied_def)
  have r: "skip_report ?E fs_denied ''/h/.ssh'' ''id_ecdsa'' = []"
    by (simp add: mem_simps fs_denied_def)
  have d: "os_Open ?E fs_denied ''/h/.ssh/id_dsa'' = Some (WrapError ''open /h/.ssh/id_dsa'' ErrNotExist)"
    by (simp add: mem_simps fs_denied_def)
  have nd: "\<not> fileExists ?E fs_denied ''/h/.ssh/id_dsa''"
    by (simp add: mem_simps fs_denied_def)
  have e: "fs (snd (writeKeysToSSHDir_loop ?E ''/h/.ssh'' ''PEM'' ''CERT'' [''id_dsa''] ?S)) =
     [(''/h/.ssh/id_ecdsa'', Denied), (''/h/.ssh/id_dsa'', Regular ''PEM'' 384),
      (''/h/.ssh/id_dsa.pub'', Regular ''CERT openpubkey'' 511)]"
    by (simp add: mem_simps fs_denied_def)
  from t o n have f: "fileExists ?E fs_denied ''/h/.ssh/id_ecdsa''"
    by blast
  from t o n j no r have l: "writeKeysToSSHDir_loop ?E ''/h/.ssh'' ''PEM'' ''CERT'' [''id_ecdsa'', ''id_dsa''] ?S =
      writeKeysToSSHDir_loop ?E ''/h/.ssh'' ''PEM'' ''CERT'' [''id_dsa''] ?S"
    by simp
  from o f d nd l e show ?thesis by simp
qed

text \<open>
  C7. When the encoder emits the key type, a space, the key data and a newline,
  \<open>createSSHCert\<close> returns the line without the newline, and that blob holds no
  newline. The write step writes to the public path exactly the blob, one space and
  "openpubkey": the single line \<open>key-type key-data openpubkey\<close>, with no newline in
  it.
\<close>

theorem certificate_line_with_marker:
  assumes "client_OidcAuth lib client cxt signer alg [] gqFlag = Inr pkt"
    and "sshcert_New lib pkt principals = Inr cert"
    and "ssh_NewSignerFromSigner lib signer = Inr sshSigner"
    and "ssh_AlgorithmSigner lib sshSigner"
    and "ssh_NewSignerWithAlgorithms lib sshSigner [ssh_KeyAlgoECDSA256] = Inr signerMas"
    and "cert_SignCert lib cert signerMas = Inr sshCert"
    and "ssh_MarshalAuthorizedKey lib sshCert = keyType @ '' '' @ keyData @ [CHR 0x0A]"
    and "CHR 0x0A \<notin> set keyType" and "CHR 0x0A \<notin> set keyData"
    and "ssh_MarshalPrivateKey lib signer ''openpubkey cert'' = Inr seckeySsh"
    and "os_WriteFile env (fs s) seckeyPath (pem_EncodeToMemory lib seckeySsh) (octal [0, 6, 0, 0]) =
           (None, w1)"
  shows "\<exists>certBytes seckeySshPem.
           createSSHCert lib cxt client signer alg gqFlag principals = Ok (certBytes, seckeySshPem) \<and>
           certBytes = keyType @ '' '' @ keyData \<and>
           CHR 0x0A \<notin> set certBytes \<and>
           fst (writeKeys env seckeyPath pubkeyPath seckeySshPem certBytes s) =
             fst (os_WriteFile env w1 pubkeyPath (keyType @ '' '' @ keyData @ '' '' @ ''openpubkey'')
                    (octal [0, 7, 7, 7])) \<and>
           fs (snd (writeKeys env seckeyPath pubkeyPath seckeySshPem certBytes s)) =
             snd (os_WriteFile env w1 pubkeyPath (keyType @ '' '' @ keyData @ '' '' @ ''openpubkey'')
                    (octal [0, 7, 7, 7])) \<and>
           CHR 0x0A \<notin> set (keyType @ '' '' @ keyData @ '' '' @ ''openpubkey'')"
proof -
  from assms(7) have m: "ssh_MarshalAuthorizedKey lib sshCert = (keyType @ '' '' @ keyData) @ [CHR 0x0A]"
    by simp
  note run = createSSHCert_run[OF assms(1-6) m assms(10)]
  have nl: "CHR 0x0A \<notin> set (keyType @ '' '' @ keyData)"
    using assms(8,9) by simp
  have nl2: "CHR 0x0A \<notin> set (keyType @ '' '' @ keyData @ '' '' @ ''openpubkey'')"
    using assms(8,9) by simp
  have wk: "fst (writeKeys env seckeyPath pubkeyPath (pem_EncodeToMemory lib seckeySsh)
               (keyType @ '' '' @ keyData) s) =
             fst (os_WriteFile env w1 pubkeyPath (keyType @ '' '' @ keyData @ '' '' @ ''openpubkey'')
                    (octal [0, 7, 7, 7])) \<and>
           fs (snd (writeKeys env seckeyPath pubkeyPath (pem_EncodeToMemory lib seckeySsh)
               (keyType @ '' '' @ keyData) s)) =
             snd (os_WriteFile env w1 pubkeyPath (keyType @ '' '' @ keyData @ '' '' @ ''openpubkey'')
                    (octal [0, 7, 7, 7]))"
    using assms(11) by (simp add: writeKeys_def Println_def Let_def split: prod.splits)
  from run nl nl2 wk show ?thesis by blast
qed

theorem certificate_line_with_marker_witness:
  "createSSHCert mem_lib () \<lparr>Op = ''op''\<rparr> 7 ''ES256'' False [] = Ok (''ty AAAA'', ''PEM openpubkey cert'') \<and>
   fs (snd (writeKeys (mem_sys ''/h'') ''/h/.ssh/id_ecdsa'' ''/h/.ssh/id_ecdsa.pub''
     ''PEM openpubkey cert'' ''ty AAAA'' \<lparr>fs = [], stdout = []\<rparr>)) =
     [(''/h/.ssh/id_ecdsa'', Regular ''PEM openpubkey cert'' 384),
      (''/h/.ssh/id_ecdsa.pub'', Regular ''ty AAAA openpubkey'' 511)]"
proof -
  let ?E = "mem_sys ''/h''"
  let ?S = "\<lparr>fs = [], stdout = []\<rparr> :: memfs state"
  have a1: "client_OidcAuth mem_lib \<lparr>Op = ''op''\<rparr> () 7 ''ES256'' [] False = Inr (''op'', 7)"
    by (simp add: mem_lib_def)
  have a2: "sshcert_New mem_lib (''op'', 7) [] = Inr ((''op'', 7), [])"
    by (simp add: mem_lib_def)
  have a3: "ssh_NewSignerFromSigner mem_lib 7 = Inr (7, [])"
    by (simp add: mem_lib_def)
  have a4: "ssh_AlgorithmSigner mem_lib (7, [])"
    by (simp add: mem_lib_def)
  have a5: "ssh_NewSignerWithAlgorithms mem_lib (7, []) [ssh_KeyAlgoECDSA256] =
      Inr (7, [ssh_KeyAlgoECDSA256])"
    by (simp add: mem_lib_def)
  have a6: "cert_SignCert mem_lib ((''op'', 7), []) (7, [ssh_KeyAlgoECDSA256]) =
      Inr (((''op'', 7), []), 7)"
    by (simp add: mem_lib_def)
  have a7: "ssh_MarshalAuthorizedKey mem_lib (((''op'', 7), []), 7) = ''ty'' @ '' '' @ ''AAAA'' @ [CHR 0x0A]"
    by (simp add: mem_lib_def)
  have a8: "CHR 0x0A \<notin> set ''ty''"
    by simp
  have a9: "CHR 0x0A \<notin> set ''AAAA''"
    by simp
  have a10: "ssh_MarshalPrivateKey mem_lib 7 ''openpubkey cert'' = Inr ''openpubkey cert''"
    by (simp add: mem_lib_def)
  have a11: "os_WriteFile ?E (fs ?S) ''/h/.ssh/id_ecdsa''
      (pem_EncodeToMemory mem_lib ''openpubkey cert'') (octal [0, 6, 0, 0]) =
      (None, [(''/h/.ssh/id_ecdsa'', Regular ''PEM openpubkey cert'' 384)])"
    by (simp add: mem_simps mem_lib_def)
  have w: "snd (os_WriteFile ?E [(''/h/.ssh/id_ecdsa'', Regular ''PEM openpubkey cert'' 384)]
      ''/h/.ssh/id_ecdsa.pub'' (''ty'' @ '' '' @ ''AAAA'' @ '' '' @ ''openpubkey'') (octal [0, 7, 7, 7])) =
     [(''/h/.ssh/id_ecdsa'', Regular ''PEM openpubkey cert'' 384),
      (''/h/.ssh/id_ecdsa.pub'', Regular ''ty AAAA openpubkey'' 511)]"
    by (simp add: mem_simps)
  have p: "pem_EncodeToMemory mem_lib ''openpubkey cert'' = ''PEM openpubkey cert''"
    by (simp add: mem_lib_def)
  from certificate_line_with_marker[OF a1 a2 a3 a4 a5 a6 a7 a8 a9 a10 a11, of "''/h/.ssh/id_ecdsa.pub''"]
  obtain certBytes seckeySshPem where
    r: "createSSHCert mem_lib () \<lparr>Op = ''op''\<rparr> 7 ''ES256'' False [] = Ok (certBytes, seckeySshPem)"
    and cb: "certBytes = ''ty'' @ '' '' @ ''AAAA''"
    and f: "fs (snd (writeKeys ?E ''/h/.ssh/id_ecdsa'' ''/h/.ssh/id_ecdsa.pub'' seckeySshPem certBytes ?S)) =
      snd (os_WriteFile ?E [(''/h/.ssh/id_ecdsa'', Regular ''PEM openpubkey cert'' 384)]
        ''/h/.ssh/id_ecdsa.pub'' (''ty'' @ '' '' @ ''AAAA'' @ '' '' @ ''openpubkey'') (octal [0, 7, 7, 7]))"
    by blast
  have sp: "seckeySshPem = ''PEM openpubkey cert''"
    using r by (simp add: lib_simps)
  from r cb f w sp show ?thesis by simp
qed

text \<open>
  C8. \<open>Login\<close> generates the key pair for \<open>ES256\<close> and restricts the certificate
  signer to the one algorithm \<open>ecdsa-sha2-nistp256\<close>: a key generator or a signer
  constructor that behaves differently for any other algorithm, or list of
  algorithms, gives the same \<open>Login\<close>. When the signer constructor or the signing
  fails, \<open>Login\<close> fails with that error, wrapped as "failed to generate SSH cert",
  and the state is untouched.
\<close>

theorem signer_restricted_to_one_algorithm:
  "jwa_ES256 = ''ES256'' \<and> ssh_KeyAlgoECDSA256 = ''ecdsa-sha2-nistp256'' \<and>
   ((\<forall>ss. f ss [ssh_KeyAlgoECDSA256] = ssh_NewSignerWithAlgorithms lib ss [ssh_KeyAlgoECDSA256]) \<longrightarrow>
      Login (lib\<lparr>ssh_NewSignerWithAlgorithms := f\<rparr>) env op s = Login lib env op s) \<and>
   (g jwa_ES256 = util_GenKeyPair lib jwa_ES256 \<longrightarrow>
      Login (lib\<lparr>util_GenKeyPair := g\<rparr>) env op s = Login lib env op s) \<and>
   (util_GenKeyPair lib jwa_ES256 = Inr signer \<and>
    client_OidcAuth lib \<lparr>Op = op\<rparr> () signer jwa_ES256 [] False = Inr pkt \<and>
    sshcert_New lib pkt [] = Inr cert \<and>
    ssh_NewSignerFromSigner lib signer = Inr sshSigner \<and>
    ssh_AlgorithmSigner lib sshSigner \<and>
    (ssh_NewSignerWithAlgorithms lib sshSigner [ssh_KeyAlgoECDSA256] = Inl e \<or>
     (\<exists>signerMas. ssh_NewSignerWithAlgorithms lib sshSigner [ssh_KeyAlgoECDSA256] = Inr signerMas \<and>
        cert_SignCert lib cert signerMas = Inl e)) \<longrightarrow>
      Login lib env op s = (Err (WrapError ''failed to generate SSH cert'' e), s))"
proof -
  have a: "(\<forall>ss. f ss [ssh_KeyAlgoECDSA256] = ssh_NewSignerWithAlgorithms lib ss [ssh_KeyAlgoECDSA256]) \<longrightarrow>
      Login (lib\<lparr>ssh_NewSignerWithAlgorithms := f\<rparr>) env op s = Login lib env op s"
    by (simp add: Login_def createSSHCert_one_algorithm cong: sum.case_cong)
  have b: "g jwa_ES256 = util_GenKeyPair lib jwa_ES256 \<longrightarrow>
      Login (lib\<lparr>util_GenKeyPair := g\<rparr>) env op s = Login lib env op s"
    by (simp add: Login_def createSSHCert_GenKeyPair cong: sum.case_cong)
  have c: "Login lib env op s = (Err (WrapError ''failed to generate SSH cert'' e), s)"
    if "util_GenKeyPair lib jwa_ES256 = Inr signer"
      and "client_OidcAuth lib \<lparr>Op = op\<rparr> () signer jwa_ES256 [] False = Inr pkt"
      and "sshcert_New lib pkt [] = Inr cert"
      and "ssh_NewSignerFromSigner lib signer = Inr sshSigner"
      and "ssh_AlgorithmSigner lib sshSigner"
      and "ssh_NewSignerWithAlgorithms lib sshSigner [ssh_KeyAlgoECDSA256] = Inl e \<or>
     (\<exists>signerMas. ssh_NewSignerWithAlgorithms lib sshSigner [ssh_KeyAlgoECDSA256] = Inr signerMas \<and>
        cert_SignCert lib cert signerMas = Inl e)"
    using createSSHCert_signer_error[OF that(2-6)] that(1) by (simp add: Login_def)
  from a b c show ?thesis
    by (simp add: jwa_ES256_def ssh_KeyAlgoECDSA256_def)
qed

theorem signer_restricted_to_one_algorithm_witness:
  "Login (mem_lib\<lparr>ssh_NewSignerWithAlgorithms := picky_NewSignerWithAlgorithms\<rparr>) (mem_sys ''/h'') ''op''
     \<lparr>fs = [], stdout = []\<rparr> =
   Login mem_lib (mem_sys ''/h'') ''op'' \<lparr>fs = [], stdout = []\<rparr> \<and>
   Login (mem_lib\<lparr>util_GenKeyPair := picky_GenKeyPair\<rparr>) (mem_sys ''/h'') ''op''
     \<lparr>fs = [], stdout = []\<rparr> =
   Login mem_lib (mem_sys ''/h'') ''op'' \<lparr>fs = [], stdout = []\<rparr> \<and>
   Login (mem_lib\<lparr>cert_SignCert := (\<lambda>c sm. Inl (ErrorString ''sign failed''))\<rparr>) (mem_sys ''/h'') ''op''
     \<lparr>fs = [], stdout = []\<rparr> =
   (Err (WrapError ''failed to generate SSH cert'' (ErrorString ''sign failed'')),
    \<lparr>fs = [], stdout = []\<rparr>)"
proof -
  let ?E = "mem_sys ''/h''"
  let ?S = "\<lparr>fs = [], stdout = []\<rparr> :: memfs state"
  let ?bad = "mem_lib\<lparr>cert_SignCert := (\<lambda>c sm. Inl (ErrorString ''sign failed''))\<rparr>"
  note t1 = signer_restricted_to_one_algorithm[of picky_NewSignerWithAlgorithms mem_lib ?E "''op''" ?S
      picky_GenKeyPair 7 "(''op'', 7)" "((''op'', 7), [])" "(7, [])" "ErrorString ''sign failed''"]
  note t2 = signer_restricted_to_one_algorithm[of picky_NewSignerWithAlgorithms ?bad ?E "''op''" ?S
      picky_GenKeyPair 7 "(''op'', 7)" "((''op'', 7), [])" "(7, [])" "ErrorString ''sign failed''"]
  have h1: "\<forall>ss. picky_NewSignerWithAlgorithms ss [ssh_KeyAlgoECDSA256] =
      ssh_NewSignerWithAlgorithms mem_lib ss [ssh_KeyAlgoECDSA256]"
    by (simp add: picky_NewSignerWithAlgorithms_def mem_lib_def ssh_KeyAlgoECDSA256_def)
  have h2: "picky_GenKeyPair jwa_ES256 = util_GenKeyPair mem_lib jwa_ES256"
    by (simp add: picky_GenKeyPair_def mem_lib_def jwa_ES256_def)
  have h3: "util_GenKeyPair ?bad jwa_ES256 = Inr 7"
    "client_OidcAuth ?bad \<lparr>Op = ''op''\<rparr> () 7 jwa_ES256 [] False = Inr (''op'', 7)"
    "sshcert_New ?bad (''op'', 7) [] = Inr ((''op'', 7), [])"
    "ssh_NewSignerFromSigner ?bad 7 = Inr (7, [])"
    "ssh_AlgorithmSigner ?bad (7, [])"
    "ssh_NewSignerWithAlgorithms ?bad (7, []) [ssh_KeyAlgoECDSA256] = Inr (7, [ssh_KeyAlgoECDSA256])"
    "cert_SignCert ?bad ((''op'', 7), []) (7, [ssh_KeyAlgoECDSA256]) = Inl (ErrorString ''sign failed'')"
    by (simp_all add: mem_lib_def jwa_ES256_def)
  from t1 h1 have c1: "Login (mem_lib\<lparr>ssh_NewSignerWithAlgorithms := picky_NewSignerWithAlgorithms\<rparr>) ?E ''op'' ?S =
      Login mem_lib ?E ''op'' ?S"
    by blast
  from t1 h2 have c2: "Login (mem_lib\<lparr>util_GenKeyPair := picky_GenKeyPair\<rparr>) ?E ''op'' ?S =
      Login mem_lib ?E ''op'' ?S"
    by blast
  from t2 h3 have c3: "Login ?bad ?E ''op'' ?S =
      (Err (WrapError ''failed to generate SSH cert'' (ErrorString ''sign failed'')), ?S)"
    by blast
  from c1 c2 c3 show ?thesis by blast
qed

text \<open>
  C10. \<open>Login\<close> takes the OpenID provider and no principal: the only principal list
  the certificate binder \<open>sshcert.New\<close> is given is the empty one, so a binder that
  behaves differently for any other list gives the same \<open>Login\<close>; and the
  certificate that \<open>Login\<close> has signed, encodes and installs is the one bound with
  the empty principal list.
\<close>

theorem Login_principals_empty:
  "((\<forall>pkt. f pkt [] = sshcert_New lib pkt []) \<longrightarrow>
      Login (lib\<lparr>sshcert_New := f\<rparr>) env op s = Login lib env op s) \<and>
   (util_GenKeyPair lib jwa_ES256 = Inr signer \<and>
    client_OidcAuth lib \<lparr>Op = op\<rparr> () signer jwa_ES256 [] False = Inr pkt \<and>
    sshcert_New lib pkt [] = Inr cert \<and>
    ssh_NewSignerFromSigner lib signer = Inr sshSigner \<and>
    ssh_AlgorithmSigner lib sshSigner \<and>
    ssh_NewSignerWithAlgorithms lib sshSigner [ssh_KeyAlgoECDSA256] = Inr signerMas \<and>
    cert_SignCert lib cert signerMas = Inr sshCert \<and>
    ssh_MarshalAuthorizedKey lib sshCert = line @ [c] \<and>
    ssh_MarshalPrivateKey lib signer ''openpubkey cert'' = Inr seckeySsh \<longrightarrow>
      Login lib env op s =
        (case writeKeysToSSHDir env (pem_EncodeToMemory lib seckeySsh) line s of
           (Some err, s') \<Rightarrow>
             (Err (WrapError ''failed to write SSH keys to filesystem'' err), Println [Error err] s')
         | (None, s') \<Rightarrow> (Ok (), s')))"
proof -
  have a: "(\<forall>pkt. f pkt [] = sshcert_New lib pkt []) \<longrightarrow>
      Login (lib\<lparr>sshcert_New := f\<rparr>) env op s = Login lib env op s"
    by (simp add: Login_def createSSHCert_one_principal_list cong: sum.case_cong)
  have b: "Login lib env op s =
        (case writeKeysToSSHDir env (pem_EncodeToMemory lib seckeySsh) line s of
           (Some err, s') \<Rightarrow>
             (Err (WrapError ''failed to write SSH keys to filesystem'' err), Println [Error err] s')
         | (None, s') \<Rightarrow> (Ok (), s'))"
    if "util_GenKeyPair lib jwa_ES256 = Inr signer"
      and "client_OidcAuth lib \<lparr>Op = op\<rparr> () signer jwa_ES256 [] False = Inr pkt"
      and "sshcert_New lib pkt [] = Inr cert"
      and "ssh_NewSignerFromSigner lib signer = Inr sshSigner"
      and "ssh_AlgorithmSigner lib sshSigner"
      and "ssh_NewSignerWithAlgorithms lib sshSigner [ssh_KeyAlgoECDSA256] = Inr signerMas"
      and "cert_SignCert lib cert signerMas = Inr sshCert"
      and "ssh_MarshalAuthorizedKey lib sshCert = line @ [c]"
      and "ssh_MarshalPrivateKey lib signer ''openpubkey cert'' = Inr seckeySsh"
    using createSSHCert_run[OF that(2-9)] that(1) by (simp add: Login_def)
  from a b show ?thesis by blast
qed

theorem Login_principals_empty_witness:
  "Login (mem_lib\<lparr>sshcert_New := picky_New\<rparr>) (mem_sys ''/h'') ''op'' \<lparr>fs = [], stdout = []\<rparr> =
   Login mem_lib (mem_sys ''/h'') ''op'' \<lparr>fs = [], stdout = []\<rparr> \<and>
   sshcert_New mem_lib (''op'', 7) [] = Inr ((''op'', 7), []) \<and>
   fst (Login mem_lib (mem_sys ''/h'') ''op'' \<lparr>fs = [], stdout = []\<rparr>) = Ok () \<and>
   fs (snd (Login mem_lib (mem_sys ''/h'') ''op'' \<lparr>fs = [], stdout = []\<rparr>)) =
     [(''/h/.ssh/id_ecdsa'', Regular ''PEM openpubkey cert'' 384),
      (''/h/.ssh/id_ecdsa.pub'', Regular ''ty AAAA openpubkey'' 511)]"
proof -
  let ?E = "mem_sys ''/h''"
  let ?S = "\<lparr>fs = [], stdout = []\<rparr> :: memfs state"
  note t = Login_principals_empty[of picky_New mem_lib ?E "''op''" ?S 7 "(''op'', 7)"
      "((''op'', 7), [])" "(7, [])" "(7, [ssh_KeyAlgoECDSA256])" "(((''op'', 7), []), 7)"
      "''ty AAAA''" "CHR 0x0A" "''openpubkey cert''"]
  have h1: "\<forall>pkt. picky_New pkt [] = sshcert_New mem_lib pkt []"
    by (simp add: picky_New_def mem_lib_def)
  have h2: "util_GenKeyPair mem_lib jwa_ES256 = Inr 7"
    "client_OidcAuth mem_lib \<lparr>Op = ''op''\<rparr> () 7 jwa_ES256 [] False = Inr (''op'', 7)"
    "sshcert_New mem_lib (''op'', 7) [] = Inr ((''op'', 7), [])"
    "ssh_NewSignerFromSigner mem_lib 7 = Inr (7, [])"
    "ssh_AlgorithmSigner mem_lib (7, [])"
    "ssh_NewSignerWithAlgorithms mem_lib (7, []) [ssh_KeyAlgoECDSA256] = Inr (7, [ssh_KeyAlgoECDSA256])"
    "cert_SignCert mem_lib ((''op'', 7), []) (7, [ssh_KeyAlgoECDSA256]) = Inr (((''op'', 7), []), 7)"
    "ssh_MarshalAuthorizedKey mem_lib (((''op'', 7), []), 7) = ''ty AAAA'' @ [CHR 0x0A]"
    "ssh_MarshalPrivateKey mem_lib 7 ''openpubkey cert'' = Inr ''openpubkey cert''"
    by (simp_all add: mem_lib_def jwa_ES256_def)
  have p: "pem_EncodeToMemory mem_lib ''openpubkey cert'' = ''PEM openpubkey cert''"
    by (simp add: mem_lib_def)
  have w: "writeKeysToSSHDir ?E ''PEM openpubkey cert'' ''ty AAAA'' ?S =
      (None, \<lparr>fs = [(''/h/.ssh/id_ecdsa'', Regular ''PEM openpubkey cert'' 384),
                   (''/h/.ssh/id_ecdsa.pub'', Regular ''ty AAAA openpubkey'' 511)],
              stdout = Sprintln [''writing secret key to'', ''/h/.ssh/id_ecdsa''] @
                       Sprintln [''writing public key to'', ''/h/.ssh/id_ecdsa.pub'']\<rparr>)"
    by (simp add: mem_simps)
  from t h1 have c1: "Login (mem_lib\<lparr>sshcert_New := picky_New\<rparr>) ?E ''op'' ?S = Login mem_lib ?E ''op'' ?S"
    by blast
  from t h2 have "Login mem_lib ?E ''op'' ?S =
        (case writeKeysToSSHDir ?E (pem_EncodeToMemory mem_lib ''openpubkey cert'') ''ty AAAA'' ?S of
           (Some err, s') \<Rightarrow>
             (Err (WrapError ''failed to write SSH keys to filesystem'' err), Println [Error err] s')
         | (None, s') \<Rightarrow> (Ok (), s'))"
    by blast
  then have c2: "fst (Login mem_lib ?E ''op'' ?S) = Ok ()"
    and c3: "fs (snd (Login mem_lib ?E ''op'' ?S)) =
      [(''/h/.ssh/id_ecdsa'', Regular ''PEM openpubkey cert'' 384),
       (''/h/.ssh/id_ecdsa.pub'', Regular ''ty AAAA openpubkey'' 511)]"
    unfolding p w by simp_all
  from c1 h2(3) c2 c3 show ?thesis by blast
qed

end
